theory Spec2Isabelle
  imports Complex_Main "HOL-Library.Word"
begin

section \<open>fish\_key\_reader: data model\<close>

text \<open>
  The embedding follows \<^verbatim>\<open>src/fish_key_reader.cpp\<close> function by function.

  \<^item> A \<^verbatim>\<open>wchar_t\<close> delivered by the event source is a code point; it is a \<open>nat\<close>.
  \<^item> \<^verbatim>\<open>unsigned char\<close>, \<^verbatim>\<open>char\<close> and \<^verbatim>\<open>cc_t\<close> are \<open>8 word\<close>.
  \<^item> Text written to \<^verbatim>\<open>stdout\<close> and \<^verbatim>\<open>stderr\<close> is appended to two strings of the state.
  \<^item> The two function-local \<^verbatim>\<open>static\<close> arrays named \<^verbatim>\<open>recent_chars\<close> are maps from
    the index to the byte; all their indices in the source are constants in range.
  \<^item> A \<^verbatim>\<open>double\<close> timestamp is carried as the real number it denotes; the model does
    no arithmetic on it. The value of the binary64 expression
    \<^verbatim>\<open>1000000 * (now - prev_tstamp)\<close> after its conversion to \<^verbatim>\<open>long long\<close> comes from
    outside, with the timestamp, as a 64-bit word.
  \<^item> A run of the session loop reads a finite list of inputs. When the list is used up the
    run ends with the outcome \<open>At_loop_test\<close> or \<open>Awaiting_input\<close>.
  \<^item> A signal is delivered either before the loop condition is tested or, after the test,
    while the round waits for its event; the handler runs at once and the round goes on.
\<close>

type_synonym wchar_t = nat
type_synonym uchar = "8 word"
type_synonym long_long = "64 word"

definition backslash :: char where
  "backslash = CHR 0x5C"

definition newline :: char where
  "newline = CHR 0x0A"

definition apostrophe :: char where
  "apostrophe = CHR 0x27"

definition dquote :: char where
  "dquote = CHR 0x22"

text \<open>\<^verbatim>\<open>shell_modes.c_cc[VINTR]\<close> and \<^verbatim>\<open>shell_modes.c_cc[VEOF]\<close>, the only two fields
  of the terminal modes that the program reads.\<close>

record termios =
  VINTR :: uchar
  VEOF :: uchar

text \<open>The previous disposition of a signal, as \<^verbatim>\<open>install_our_signal_handlers\<close> stores
  it: the handler (a function is named by a number) and whether \<^verbatim>\<open>SA_SIGINFO\<close> is set
  in \<^verbatim>\<open>sa_flags\<close>.\<close>

datatype sighandler = SIG_DFL | SIG_IGN | Handler nat

record sigaction =
  sa_handler :: sighandler
  sa_siginfo :: bool

datatype chained_call = Call_sa_sigaction nat int | Call_sa_handler nat int

text \<open>Functions of the repository that are declared in headers only: they are parameters.
  \<^verbatim>\<open>str2wcstring\<close> converts the bytes of the window to a wide string,
  \<^verbatim>\<open>input_terminfo_get_name\<close> is the capability table (\<open>None\<close> when it returns false),
  \<^verbatim>\<open>sig2wcs\<close> names a signal.\<close>

record externals =
  str2wcstring :: "uchar list \<Rightarrow> wchar_t list"
  input_terminfo_get_name :: "wchar_t list \<Rightarrow> string option"
  sig2wcs :: "int \<Rightarrow> string"

text \<open>The mutable state of the program: the file-level \<^verbatim>\<open>keep_running\<close> and
  \<^verbatim>\<open>old_sigactions\<close>, the static windows of \<^verbatim>\<open>should_exit\<close> and
  \<^verbatim>\<open>sequence_name\<close>, the locals of \<^verbatim>\<open>process_input\<close>, the two output streams, and
  the log of the calls made to previously installed signal handlers.\<close>

record state =
  keep_running :: bool
  old_sigactions :: "nat \<Rightarrow> sigaction"
  exit_recent_chars :: "nat \<Rightarrow> uchar"
  seq_recent_chars :: "nat \<Rightarrow> uchar"
  first_char_seen :: bool
  prev_tstamp :: real
  bind_chars :: "wchar_t list"
  stdout :: string
  stderr :: string
  chained :: "chained_call list"

section \<open>printf conversions\<close>

definition digit_char :: "nat \<Rightarrow> char" where
  "digit_char d = ''0123456789ABCDEF'' ! (d mod 16)"

fun hex_upper :: "nat \<Rightarrow> string" where
  "hex_upper n = (if n < 16 then [digit_char n] else hex_upper (n div 16) @ [digit_char (n mod 16)])"

declare hex_upper.simps [simp del]

fun decimal :: "nat \<Rightarrow> string" where
  "decimal n = (if n < 10 then [digit_char n] else decimal (n div 10) @ [digit_char (n mod 10)])"

declare decimal.simps [simp del]

text \<open>A minimum field width: \<^verbatim>\<open>%4X\<close> pads with spaces, \<^verbatim>\<open>%04X\<close> with zeros.\<close>

definition pad :: "char \<Rightarrow> nat \<Rightarrow> string \<Rightarrow> string" where
  "pad ch width s = replicate (width - length s) ch @ s"

text \<open>\<^verbatim>\<open>%d\<close> and \<^verbatim>\<open>%lld\<close> with a width and a padding character; zero padding goes
  between the sign and the digits.\<close>

definition printf_d :: "char \<Rightarrow> nat \<Rightarrow> int \<Rightarrow> string" where
  "printf_d ch width i =
     (if 0 \<le> i then pad ch width (decimal (nat i))
      else if ch = CHR ''0'' then ''-'' @ pad ch (width - 1) (decimal (nat (- i)))
      else pad ch width (''-'' @ decimal (nat (- i))))"

text \<open>C's \<^verbatim>\<open>/\<close> and \<^verbatim>\<open>%\<close> on signed integers truncate towards zero.\<close>

definition c_div :: "int \<Rightarrow> int \<Rightarrow> int" where
  "c_div a b = (if (a < 0) = (b < 0) then \<bar>a\<bar> div \<bar>b\<bar> else - (\<bar>a\<bar> div \<bar>b\<bar>))"

definition c_mod :: "int \<Rightarrow> int \<Rightarrow> int" where
  "c_mod a b = (if a < 0 then - (\<bar>a\<bar> mod \<bar>b\<bar>) else \<bar>a\<bar> mod \<bar>b\<bar>)"

section \<open>Symbol formatter\<close>

definition ctrl_symbolic_names :: "string option list" where
  "ctrl_symbolic_names =
    [None, None, None, None, None, None, None, Some (backslash # ''a''), Some (backslash # ''b''),
     Some (backslash # ''t''), Some (backslash # ''n''),
     Some (backslash # ''v''), Some (backslash # ''f''), Some (backslash # ''r''), None, None,
     None, None, None, None, None, None,
     None, None, None, None, None, Some (backslash # ''e''), None, None, None, None]"

text \<open>\<^verbatim>\<open>wcschr\<close> searches the characters of the literal and its terminating null.\<close>

definition must_escape :: "wchar_t \<Rightarrow> bool" where
  "must_escape wc =
     (wc \<in> set (map of_char (''[]()<>{}*'' @ [backslash] @ ''?$#;&|'' @ [apostrophe, dquote]) @ [0]))"

text \<open>Reached for \<open>wc < 32\<close> only, so the index is inside the table of 32 entries.\<close>

definition ctrl_to_symbol :: "wchar_t \<Rightarrow> bool \<Rightarrow> string" where
  "ctrl_to_symbol wc bind_friendly =
     (case ctrl_symbolic_names ! wc of
        Some name \<Rightarrow>
          if bind_friendly then name
          else backslash # ''c'' @ [char_of (wc + 0x40)] @ ''  (or '' @ name @ '')''
      | None \<Rightarrow> backslash # ''c'' @ [char_of (wc + 0x40)])"

definition space_to_symbol :: "wchar_t \<Rightarrow> bool \<Rightarrow> string" where
  "space_to_symbol wc bind_friendly =
     (if bind_friendly then backslash # ''x'' @ hex_upper wc
      else backslash # ''x'' @ hex_upper wc @ ''  (aka '' @ [dquote] @ ''space'' @ [dquote] @ '')'')"

definition del_to_symbol :: "wchar_t \<Rightarrow> bool \<Rightarrow> string" where
  "del_to_symbol wc bind_friendly =
     (if bind_friendly then backslash # ''x'' @ hex_upper wc
      else backslash # ''x'' @ hex_upper wc @ ''  (aka '' @ [dquote] @ ''del'' @ [dquote] @ '')'')"

definition ascii_printable_to_symbol :: "wchar_t \<Rightarrow> bool \<Rightarrow> string" where
  "ascii_printable_to_symbol wc bind_friendly =
     (if bind_friendly \<and> must_escape wc then [backslash, char_of wc] else [char_of wc])"

definition char_to_symbol :: "wchar_t \<Rightarrow> bool \<Rightarrow> string" where
  "char_to_symbol wc bind_friendly =
     (if wc < of_char CHR '' '' then ctrl_to_symbol wc bind_friendly
      else if wc = of_char CHR '' '' then space_to_symbol wc bind_friendly
      else if wc = 0x7F then del_to_symbol wc bind_friendly
      else if wc < 0x80 then ascii_printable_to_symbol wc bind_friendly
      else if wc \<le> 0xFFFF then backslash # ''u'' @ pad CHR ''0'' 4 (hex_upper wc)
      else backslash # ''U'' @ pad CHR ''0'' 6 (hex_upper wc))"

section \<open>Bind-command accumulator\<close>

definition add_char_to_bind_command :: "wchar_t \<Rightarrow> state \<Rightarrow> state" where
  "add_char_to_bind_command wc s = s\<lparr>bind_chars := bind_chars s @ [wc]\<rparr>"

text \<open>The \<^verbatim>\<open>for\<close> loop of \<^verbatim>\<open>output_bind_command\<close>: one \<^verbatim>\<open>fputws\<close> for each element.\<close>

primrec fputws_symbols :: "wchar_t list \<Rightarrow> state \<Rightarrow> state" where
  "fputws_symbols [] s = s"
| "fputws_symbols (wc # wcs) s =
     fputws_symbols wcs (s\<lparr>stdout := stdout s @ char_to_symbol wc True\<rparr>)"

definition output_bind_command :: "state \<Rightarrow> state" where
  "output_bind_command s =
     (if length (bind_chars s) \<noteq> 0 then
        let s1 = s\<lparr>stdout := stdout s @ ''bind ''\<rparr>;
            s2 = fputws_symbols (bind_chars s1) s1;
            s3 = s2\<lparr>stdout := stdout s2 @ '' '' @ [apostrophe] @ ''do something'' @ [apostrophe, newline]\<rparr>
        in s3\<lparr>bind_chars := []\<rparr>
      else s)"

definition output_info_about_char :: "wchar_t \<Rightarrow> state \<Rightarrow> state" where
  "output_info_about_char wc s =
     s\<lparr>stderr := stderr s @ ''hex: '' @ pad CHR '' '' 4 (hex_upper wc) @ ''  char: ''
          @ char_to_symbol wc False @ [newline]\<rparr>"

section \<open>Exit-sequence detector\<close>

definition press_again :: "uchar \<Rightarrow> string" where
  "press_again cc = ''Press [ctrl-'' @ [char_of (unat cc + 0x40)] @ ''] again to exit'' @ [newline]"

text \<open>\<^verbatim>\<open>memcmp(recent_chars, word, 4) == 0\<close>.\<close>

definition memcmp4_eq :: "(nat \<Rightarrow> uchar) \<Rightarrow> string \<Rightarrow> bool" where
  "memcmp4_eq recent_chars word = (map recent_chars [0, 1, 2, 3] = map of_char word)"

definition should_exit :: "termios \<Rightarrow> wchar_t \<Rightarrow> state \<Rightarrow> bool \<times> state" where
  "should_exit shell_modes wc s =
     (let c = (if wc < 0x80 then word_of_nat wc else 0) :: uchar;
          r0 = exit_recent_chars s;
          r1 = r0(0 := r0 1);
          r2 = r1(1 := r1 2);
          r3 = r2(2 := r2 3);
          recent_chars = r3(3 := c);
          s' = s\<lparr>exit_recent_chars := recent_chars\<rparr>
      in if c = VINTR shell_modes then
           if recent_chars 2 = VINTR shell_modes then (True, s')
           else (False, s'\<lparr>stderr := stderr s' @ press_again (VINTR shell_modes)\<rparr>)
         else if c = VEOF shell_modes then
           if recent_chars 2 = VEOF shell_modes then (True, s')
           else (False, s'\<lparr>stderr := stderr s' @ press_again (VEOF shell_modes)\<rparr>)
         else (memcmp4_eq recent_chars ''exit'' \<or> memcmp4_eq recent_chars ''quit'', s'))"

section \<open>Terminal-sequence matcher\<close>

text \<open>The bytes \<^verbatim>\<open>recent_chars + idx\<close> of length \<^verbatim>\<open>8 - idx\<close>.\<close>

definition window_from :: "(nat \<Rightarrow> uchar) \<Rightarrow> nat \<Rightarrow> uchar list" where
  "window_from recent_chars idx = map recent_chars [idx..<8]"

text \<open>The loop \<^verbatim>\<open>for (int idx = 7; idx >= 0; idx--)\<close>, entered at \<open>idx\<close>: the first
  index whose bytes the table knows ends it.\<close>

primrec sequence_search :: "externals \<Rightarrow> (nat \<Rightarrow> uchar) \<Rightarrow> nat \<Rightarrow> string option" where
  "sequence_search ext recent_chars 0 =
     input_terminfo_get_name ext (str2wcstring ext (window_from recent_chars 0))"
| "sequence_search ext recent_chars (Suc idx) =
     (case input_terminfo_get_name ext (str2wcstring ext (window_from recent_chars (Suc idx))) of
        Some out_name \<Rightarrow> Some out_name
      | None \<Rightarrow> sequence_search ext recent_chars idx)"

definition sequence_name :: "externals \<Rightarrow> wchar_t \<Rightarrow> state \<Rightarrow> string option \<times> state" where
  "sequence_name ext wc s =
     (let c = (if wc < 0x80 then word_of_nat wc else 0) :: uchar;
          r0 = seq_recent_chars s;
          r1 = r0(0 := r0 1);
          r2 = r1(1 := r1 2);
          r3 = r2(2 := r2 3);
          r4 = r3(3 := r3 4);
          r5 = r4(4 := r4 5);
          r6 = r5(5 := r5 6);
          r7 = r6(6 := r6 7);
          recent_chars = r7(7 := c)
      in (sequence_search ext recent_chars 7, s\<lparr>seq_recent_chars := recent_chars\<rparr>))"

definition output_matching_key_name :: "externals \<Rightarrow> wchar_t \<Rightarrow> state \<Rightarrow> bool \<times> state" where
  "output_matching_key_name ext wc s =
     (case sequence_name ext wc s of
        (Some name, s') \<Rightarrow>
          (True, s'\<lparr>stdout := stdout s' @ ''bind -k '' @ name @ '' '' @ [apostrophe]
                       @ ''do something'' @ [apostrophe, newline]\<rparr>)
      | (None, s') \<Rightarrow> (False, s'))"

section \<open>Elapsed time\<close>

text \<open>\<open>now\<close> is the value that \<^verbatim>\<open>timef()\<close> returns and \<open>delta_tstamp_us\<close> the value
  of the variable of that name: what the binary64 evaluation of
  \<^verbatim>\<open>1000000 * (now - prev_tstamp)\<close> gives when it is converted to \<^verbatim>\<open>long long\<close>. The
  comparisons, \<^verbatim>\<open>/\<close> and \<^verbatim>\<open>%\<close> are those of the signed value; a division by 1000 cannot
  overflow. The parameter \<open>first_char_seen_arg\<close> carries a suffix since the state has a
  field of the same name.\<close>

definition output_elapsed_time :: "real \<Rightarrow> long_long \<Rightarrow> bool \<Rightarrow> state \<Rightarrow> real \<times> state" where
  "output_elapsed_time now delta_tstamp_us first_char_seen_arg s =
     (let s1 = (if sint delta_tstamp_us \<ge> 200000 \<and> first_char_seen_arg
                then s\<lparr>stderr := stderr s @ [newline]\<rparr> else s);
          s2 = (if sint delta_tstamp_us \<ge> 1000000
                then s1\<lparr>stderr := stderr s1 @ ''              ''\<rparr>
                else s1\<lparr>stderr := stderr s1 @ ''('' @ printf_d CHR '' '' 3 (c_div (sint delta_tstamp_us) 1000)
                          @ ''.'' @ printf_d CHR ''0'' 3 (c_mod (sint delta_tstamp_us) 1000) @ '' ms)  ''\<rparr>)
      in (now, s2))"

section \<open>Signal handler\<close>

text \<open>The signal numbers of \<^verbatim>\<open><signal.h>\<close> on Linux.\<close>

definition SIGHUP :: int where "SIGHUP = 1"
definition SIGABRT :: int where "SIGABRT = 6"
definition SIGSEGV :: int where "SIGSEGV = 11"
definition SIGTERM :: int where "SIGTERM = 15"

text \<open>\<^verbatim>\<open>old_sigactions\<close> has 32 entries; an index outside it is undefined behaviour, the
  result \<open>None\<close>. The call of a previously installed handler is recorded in \<open>chained\<close>.\<close>

definition signal_handler :: "externals \<Rightarrow> int \<Rightarrow> state \<Rightarrow> state option" where
  "signal_handler ext signo s =
     (let s1 = s\<lparr>stdout := stdout s @ ''signal #'' @ printf_d CHR '' '' 0 signo @ '' (''
                     @ sig2wcs ext signo @ '') received'' @ [newline]\<rparr>;
          s2 = (if signo = SIGHUP \<or> signo = SIGTERM \<or> signo = SIGABRT \<or> signo = SIGSEGV
                then s1\<lparr>keep_running := False\<rparr> else s1)
      in if signo < 0 \<or> 32 \<le> signo then None
         else case sa_handler (old_sigactions s2 (nat signo)) of
                SIG_IGN \<Rightarrow> Some s2
              | SIG_DFL \<Rightarrow> Some s2
              | Handler f \<Rightarrow>
                  if sa_siginfo (old_sigactions s2 (nat signo))
                  then Some (s2\<lparr>chained := chained s2 @ [Call_sa_sigaction f signo]\<rparr>)
                  else Some (s2\<lparr>chained := chained s2 @ [Call_sa_handler f signo]\<rparr>))"

section \<open>Session loop\<close>

text \<open>What a run of the \<^verbatim>\<open>while (keep_running)\<close> loop receives from outside.

  \<^item> \<open>Signal\<close>: a signal delivered where the run stands: before the loop condition is
    tested or, inside a round, while the round waits for its event.
  \<^item> \<open>Signal_in_read\<close>: a signal delivered while the round waits for its event; when the
    run stands at the loop condition, the condition is tested first.
  \<^item> \<open>Interrupted\<close>: \<^verbatim>\<open>reader_test_and_clear_interrupted()\<close> returns true.
  \<^item> \<open>Read_char\<close>, \<open>Read_no_char\<close>: \<^verbatim>\<open>queue.readch_timed(true)\<close> returns a character
    event, or an event that is no character.

  A character event comes with the value of \<^verbatim>\<open>timef()\<close> and the value of
  \<^verbatim>\<open>delta_tstamp_us\<close>. The handler writes only \<^verbatim>\<open>keep_running\<close>, the primary output and
  the log of chained calls, and the loop reads \<^verbatim>\<open>keep_running\<close> only in its condition: a
  signal that arrives later in a round is taken as arriving before the next test.

  The outcomes: the \<^verbatim>\<open>return\<close> after a non-character event, the \<^verbatim>\<open>break\<close> after
  \<^verbatim>\<open>should_exit\<close>, the loop condition found false, a signal number outside
  \<^verbatim>\<open>old_sigactions\<close>, and the two ways the inputs can be used up: with \<^verbatim>\<open>keep_running\<close>
  true and the condition not yet tested, or inside a round that waits for its event.\<close>

datatype input =
    Signal int
  | Signal_in_read int
  | Interrupted real long_long
  | Read_char wchar_t real long_long
  | Read_no_char

datatype outcome =
    Returned_on_timeout
  | Exited_on_request
  | Stopped_by_flag
  | Undefined_behaviour
  | At_loop_test
  | Awaiting_input

text \<open>The body of the loop for a character event. The flag says whether the loop is left
  by \<^verbatim>\<open>break\<close>.\<close>

definition character_event ::
  "externals \<Rightarrow> termios \<Rightarrow> wchar_t \<Rightarrow> real \<Rightarrow> long_long \<Rightarrow> state \<Rightarrow> bool \<times> state" where
  "character_event ext shell_modes wc now delta_tstamp_us s =
     (let (t, s1) = output_elapsed_time now delta_tstamp_us (first_char_seen s) s;
          s2 = s1\<lparr>prev_tstamp := t\<rparr>;
          s3 = add_char_to_bind_command wc s2;
          s4 = output_info_about_char wc s3;
          (matched, s5) = output_matching_key_name ext wc s4;
          s6 = (if matched then output_bind_command s5 else s5);
          (exit_now, s7) = should_exit shell_modes wc s6
      in if exit_now
         then (True, s7\<lparr>stderr := stderr s7 @ [newline] @ ''Exiting at your request.'' @ [newline]\<rparr>)
         else (False, s7\<lparr>first_char_seen := True\<rparr>))"

text \<open>The loop. \<open>in_round\<close> says that the condition has been tested for the round under
  way, which now waits for its event; otherwise the run stands at the condition.\<close>

fun process_input_loop ::
  "externals \<Rightarrow> termios \<Rightarrow> bool \<Rightarrow> bool \<Rightarrow> input list \<Rightarrow> state \<Rightarrow> outcome \<times> state" where
  "process_input_loop ext shell_modes continuous_mode in_round [] s =
     (if in_round then (Awaiting_input, s)
      else if keep_running s then (At_loop_test, s) else (Stopped_by_flag, s))"
| "process_input_loop ext shell_modes continuous_mode in_round (Signal signo # inputs) s =
     (case signal_handler ext signo s of
        None \<Rightarrow> (Undefined_behaviour, s)
      | Some s' \<Rightarrow> process_input_loop ext shell_modes continuous_mode in_round inputs s')"
| "process_input_loop ext shell_modes continuous_mode in_round (Signal_in_read signo # inputs) s =
     (if in_round \<or> keep_running s then
        case signal_handler ext signo s of
          None \<Rightarrow> (Undefined_behaviour, s)
        | Some s' \<Rightarrow> process_input_loop ext shell_modes continuous_mode True inputs s'
      else (Stopped_by_flag, s))"
| "process_input_loop ext shell_modes continuous_mode in_round (Read_no_char # inputs) s =
     (if in_round \<or> keep_running s then
        let s1 = output_bind_command s
        in if first_char_seen s1 \<and> \<not> continuous_mode then (Returned_on_timeout, s1)
           else process_input_loop ext shell_modes continuous_mode False inputs s1
      else (Stopped_by_flag, s))"
| "process_input_loop ext shell_modes continuous_mode in_round (Interrupted now delta_tstamp_us # inputs) s =
     (if in_round \<or> keep_running s then
        case character_event ext shell_modes (unat (VINTR shell_modes)) now delta_tstamp_us s of
          (True, s') \<Rightarrow> (Exited_on_request, s')
        | (False, s') \<Rightarrow> process_input_loop ext shell_modes continuous_mode False inputs s'
      else (Stopped_by_flag, s))"
| "process_input_loop ext shell_modes continuous_mode in_round (Read_char wc now delta_tstamp_us # inputs) s =
     (if in_round \<or> keep_running s then
        case character_event ext shell_modes wc now delta_tstamp_us s of
          (True, s') \<Rightarrow> (Exited_on_request, s')
        | (False, s') \<Rightarrow> process_input_loop ext shell_modes continuous_mode False inputs s'
      else (Stopped_by_flag, s))"

definition process_input :: "externals \<Rightarrow> termios \<Rightarrow> bool \<Rightarrow> input list \<Rightarrow> state \<Rightarrow> outcome \<times> state" where
  "process_input ext shell_modes continuous_mode inputs s =
     process_input_loop ext shell_modes continuous_mode False inputs
       (s\<lparr>first_char_seen := False, prev_tstamp := 0, bind_chars := [],
          stderr := stderr s @ ''Press a key'' @ [newline, newline]\<rparr>)"

section \<open>Start state and drivers\<close>

text \<open>The state at program start: \<^verbatim>\<open>keep_running\<close> is true, the static arrays are
  zero (a zero \<^verbatim>\<open>sa_handler\<close> is \<^verbatim>\<open>SIG_DFL\<close>), nothing has been written.\<close>

definition initial_state :: state where
  "initial_state =
     \<lparr>keep_running = True,
      old_sigactions = (\<lambda>signo. \<lparr>sa_handler = SIG_DFL, sa_siginfo = False\<rparr>),
      exit_recent_chars = (\<lambda>i. 0),
      seq_recent_chars = (\<lambda>i. 0),
      first_char_seen = False,
      prev_tstamp = 0,
      bind_chars = [],
      stdout = [],
      stderr = [],
      chained = []\<rparr>"

text \<open>Successive calls of \<^verbatim>\<open>should_exit\<close>, one for each character, with the value each
  call returns.\<close>

primrec feed_should_exit :: "termios \<Rightarrow> wchar_t list \<Rightarrow> state \<Rightarrow> bool list \<times> state" where
  "feed_should_exit shell_modes [] s = ([], s)"
| "feed_should_exit shell_modes (wc # wcs) s =
     (fst (should_exit shell_modes wc s)
        # fst (feed_should_exit shell_modes wcs (snd (should_exit shell_modes wc s))),
      snd (feed_should_exit shell_modes wcs (snd (should_exit shell_modes wc s))))"

text \<open>Concrete surroundings for the examples: control-C and control-D as the interrupt and
  end-of-file characters, bytes below 0x80 converted to the same code points, and a
  capability table of two entries, one of which is a suffix of the other.\<close>

definition ctrl_c_ctrl_d :: termios where
  "ctrl_c_ctrl_d = \<lparr>VINTR = 3, VEOF = 4\<rparr>"

definition two_entry_table :: externals where
  "two_entry_table =
     \<lparr>str2wcstring = map unat,
      input_terminfo_get_name = map_of [([0x1B, 0x5B, 0x41], ''up''), ([0x41], ''A'')],
      sig2wcs = (\<lambda>signo. ''SIG'')\<rparr>"

text \<open>A table whose only entry is the single byte \<^verbatim>\<open>t\<close>, the last letter of both exit
  words.\<close>

definition t_key_table :: externals where
  "t_key_table =
     \<lparr>str2wcstring = map unat,
      input_terminfo_get_name = map_of [([0x74], ''tee'')],
      sig2wcs = (\<lambda>signo. ''SIG'')\<rparr>"

section \<open>Evaluation of the printf conversions\<close>

lemma hex_upper_lt16: "n < 16 \<Longrightarrow> hex_upper n = [digit_char n]"
  by (subst hex_upper.simps) simp

lemma hex_upper_ge16: "16 \<le> n \<Longrightarrow> hex_upper n = hex_upper (n div 16) @ [digit_char (n mod 16)]"
  by (subst hex_upper.simps) simp

lemma decimal_lt10: "n < 10 \<Longrightarrow> decimal n = [digit_char n]"
  by (subst decimal.simps) simp

lemma decimal_ge10: "10 \<le> n \<Longrightarrow> decimal n = decimal (n div 10) @ [digit_char (n mod 10)]"
  by (subst decimal.simps) simp

section \<open>Symbol formatter: control characters\<close>

lemma below_32_cases:
  "wc < (32::nat) \<Longrightarrow> wc \<in> set [0, 1, 2, 3, 4, 5, 6, 7, 8, 9, 10, 11, 12, 13, 14, 15, 16, 17, 18, 19,
      20, 21, 22, 23, 24, 25, 26, 27, 28, 29, 30, 31]"
  by (simp only: list.set insert_iff empty_iff) arith

text \<open>
  Claim C2 as stated: every code point below 0x20 is rendered \<^verbatim>\<open>\cX\<close> with
  \<open>X = code_point + 0x40\<close>, also a named one in the bind-friendly form. It fails at the
  line feed: the bind-friendly rendering of code point 10 is the bare name \<^verbatim>\<open>\n\<close>.
\<close>

theorem ctrl_newline_bind_friendly_counterexample:
  "char_to_symbol 10 True = [backslash, CHR ''n''] \<and>
   char_to_symbol 10 True \<noteq> backslash # ''c'' @ [char_of (10 + 0x40)]"
  by (simp add: char_to_symbol_def ctrl_to_symbol_def ctrl_symbolic_names_def)

text \<open>
  Claim C2, amended: for a code point below 0x20 that is not one of 7, 8, 9, 10, 11, 12, 13, 27
  both renderings are \<^verbatim>\<open>\cX\<close> with \<open>X = code_point + 0x40\<close>; for the eight named ones
  (\<^verbatim>\<open>\a \b \t \n \v \f \r \e\<close>) the bind-friendly rendering is the bare name and the
  other rendering is \<^verbatim>\<open>\cX\<close> followed by two spaces and \<^verbatim>\<open>(or <name>)\<close>.
\<close>

theorem ctrl_to_symbol_rendering:
  assumes "wc < 0x20"
  shows "(map_of [(7, CHR ''a''), (8, CHR ''b''), (9, CHR ''t''), (10, CHR ''n''), (11, CHR ''v''),
                  (12, CHR ''f''), (13, CHR ''r''), (27, CHR ''e'')] wc = None \<longrightarrow>
            char_to_symbol wc True = backslash # ''c'' @ [char_of (wc + 0x40)] \<and>
            char_to_symbol wc False = backslash # ''c'' @ [char_of (wc + 0x40)]) \<and>
         (\<forall>l. map_of [(7, CHR ''a''), (8, CHR ''b''), (9, CHR ''t''), (10, CHR ''n''), (11, CHR ''v''),
                  (12, CHR ''f''), (13, CHR ''r''), (27, CHR ''e'')] wc = Some l \<longrightarrow>
            char_to_symbol wc True = [backslash, l] \<and>
            char_to_symbol wc False =
              backslash # ''c'' @ [char_of (wc + 0x40)] @ ''  (or '' @ [backslash, l] @ '')'')"
proof -
  from assms have "wc \<in> set [0, 1, 2, 3, 4, 5, 6, 7, 8, 9, 10, 11, 12, 13, 14, 15, 16, 17, 18, 19,
      20, 21, 22, 23, 24, 25, 26, 27, 28, 29, 30, 31]"
    by (rule below_32_cases)
  then show ?thesis
    unfolding list.set insert_iff empty_iff
    by (elim disjE FalseE) (simp_all add: char_to_symbol_def ctrl_to_symbol_def ctrl_symbolic_names_def)
qed

theorem ctrl_to_symbol_rendering_witness:
  "char_to_symbol 3 True = backslash # ''cC'' \<and> char_to_symbol 3 False = backslash # ''cC'' \<and>
   char_to_symbol 10 True = [backslash, CHR ''n''] \<and>
   char_to_symbol 10 False = backslash # ''cJ  (or '' @ [backslash] @ ''n)''"
  using ctrl_to_symbol_rendering [of 3] ctrl_to_symbol_rendering [of 10]
  by (simp add: char_of_def bit_Suc_0_iff)

section \<open>Bind-command accumulator\<close>

lemma fputws_symbols_stdout:
  "fputws_symbols wcs s = s\<lparr>stdout := stdout s @ concat (map (\<lambda>wc. char_to_symbol wc True) wcs)\<rparr>"
  by (induction wcs arbitrary: s) simp_all

lemma output_bind_command_nonempty:
  "bind_chars s \<noteq> [] \<Longrightarrow>
     output_bind_command s =
       s\<lparr>stdout := stdout s @ ''bind '' @ concat (map (\<lambda>wc. char_to_symbol wc True) (bind_chars s))
                     @ '' '' @ [apostrophe] @ ''do something'' @ [apostrophe, newline],
         bind_chars := []\<rparr>"
  by (simp add: output_bind_command_def fputws_symbols_stdout Let_def)

lemma output_bind_command_empty: "bind_chars s = [] \<Longrightarrow> output_bind_command s = s"
  by (simp add: output_bind_command_def)

text \<open>
  Claim C7: flushing a non-empty accumulator \<open>[c1, ..., cn]\<close> writes \<^verbatim>\<open>bind \<close>, the
  bind-friendly renderings of \<open>c1\<close> to \<open>cn\<close> with no separator, then
  \<^verbatim>\<open> 'do something'\<close> and a newline to the primary output, and clears the accumulator;
  nothing else of the state changes. Flushing an empty accumulator changes nothing.
\<close>

theorem output_bind_command_flush:
  "(bind_chars s \<noteq> [] \<longrightarrow>
      output_bind_command s =
        s\<lparr>stdout := stdout s @ ''bind '' @ concat (map (\<lambda>wc. char_to_symbol wc True) (bind_chars s))
                      @ '' '' @ [apostrophe] @ ''do something'' @ [apostrophe, newline],
          bind_chars := []\<rparr>) \<and>
   (bind_chars s = [] \<longrightarrow> output_bind_command s = s)"
  by (simp add: output_bind_command_nonempty output_bind_command_empty)

lemma char_to_symbol_examples:
  "char_to_symbol 0x61 True = ''a''"
  "char_to_symbol 0x20 True = backslash # ''x20''"
  "char_to_symbol 0x5B True = backslash # ''[''"
  by (simp_all add: char_to_symbol_def ascii_printable_to_symbol_def space_to_symbol_def
      must_escape_def backslash_def apostrophe_def dquote_def char_of_def bit_Suc_0_iff
      hex_upper_lt16 hex_upper_ge16 digit_char_def)

theorem output_bind_command_flush_witness:
  "output_bind_command (initial_state\<lparr>bind_chars := [0x61, 0x20, 0x5B]\<rparr>) =
     initial_state\<lparr>stdout := ''bind a'' @ [backslash] @ ''x20'' @ [backslash] @ ''[ '' @ [apostrophe]
                                 @ ''do something'' @ [apostrophe, newline]\<rparr> \<and>
   output_bind_command initial_state = initial_state"
  using output_bind_command_flush [of "initial_state\<lparr>bind_chars := [0x61, 0x20, 0x5B]\<rparr>"]
        output_bind_command_flush [of initial_state]
  by (simp add: initial_state_def char_to_symbol_examples)

section \<open>Exit-sequence detector\<close>

text \<open>The window after a call: every byte has moved one slot down and the new byte is in
  slot 3.\<close>

lemma should_exit_window:
  "exit_recent_chars (snd (should_exit sm wc s)) 0 = exit_recent_chars s 1"
  "exit_recent_chars (snd (should_exit sm wc s)) (Suc 0) = exit_recent_chars s 2"
  "exit_recent_chars (snd (should_exit sm wc s)) 2 = exit_recent_chars s 3"
  "exit_recent_chars (snd (should_exit sm wc s)) 3 = (if wc < 0x80 then word_of_nat wc else 0)"
  by (simp_all add: should_exit_def Let_def)

lemma should_exit_result:
  "fst (should_exit sm wc s) =
     (if (if wc < 0x80 then word_of_nat wc else 0) = VINTR sm then exit_recent_chars s 3 = VINTR sm
      else if (if wc < 0x80 then word_of_nat wc else 0) = VEOF sm then exit_recent_chars s 3 = VEOF sm
      else memcmp4_eq (exit_recent_chars (snd (should_exit sm wc s))) ''exit'' \<or>
           memcmp4_eq (exit_recent_chars (snd (should_exit sm wc s))) ''quit'')"
  by (simp add: should_exit_def Let_def)

lemma should_exit_streams:
  "stdout (snd (should_exit sm wc s)) = stdout s"
  "stderr (snd (should_exit sm wc s)) =
     (if (if wc < 0x80 then word_of_nat wc else 0) = VINTR sm
      then (if exit_recent_chars s 3 = VINTR sm then stderr s else stderr s @ press_again (VINTR sm))
      else if (if wc < 0x80 then word_of_nat wc else 0) = VEOF sm
      then (if exit_recent_chars s 3 = VEOF sm then stderr s else stderr s @ press_again (VEOF sm))
      else stderr s)"
  by (simp_all add: should_exit_def Let_def)

text \<open>
  Claim C4 as stated: when the interrupt character is pushed, \<^verbatim>\<open>should_exit\<close> returns
  true if and only if the slot two positions behind the newest slot of the window after the
  push (slot 1, the character received two events earlier) holds the interrupt character.
  Both directions fail with control-C as the interrupt character, from the start state:
  after control-C, \<^verbatim>\<open>a\<close>, control-C slot 1 holds control-C and the third call returns
  false; after control-C, control-C slot 1 does not hold it and the second call returns true.
\<close>

theorem should_exit_two_back_counterexample:
  "fst (feed_should_exit ctrl_c_ctrl_d [3, 0x61, 3] initial_state) = [False, False, False] \<and>
   exit_recent_chars (snd (feed_should_exit ctrl_c_ctrl_d [3, 0x61, 3] initial_state)) 1 = VINTR ctrl_c_ctrl_d \<and>
   fst (feed_should_exit ctrl_c_ctrl_d [3, 3] initial_state) = [False, True] \<and>
   exit_recent_chars (snd (feed_should_exit ctrl_c_ctrl_d [3, 3] initial_state)) 1 \<noteq> VINTR ctrl_c_ctrl_d"
  by (simp add: should_exit_window should_exit_result ctrl_c_ctrl_d_def initial_state_def memcmp4_eq_def)

text \<open>
  Claim C4, amended: when the byte \<open>c\<close> pushed into the window equals the interrupt (or
  end-of-file) character, \<^verbatim>\<open>should_exit\<close> returns true if and only if the slot one
  position behind the newest slot of the window after the push (slot 2, the byte of the
  immediately preceding call) also equals that character; when it returns false it has
  written the press-again warning, and when it returns true it has written nothing.
\<close>

theorem should_exit_doubled_press:
  assumes "c = (if wc < 0x80 then word_of_nat wc else 0)"
    and "c = VINTR sm \<or> c = VEOF sm"
  shows "fst (should_exit sm wc s) = (exit_recent_chars (snd (should_exit sm wc s)) 2 = c) \<and>
         exit_recent_chars (snd (should_exit sm wc s)) 2 = exit_recent_chars s 3 \<and>
         exit_recent_chars (snd (should_exit sm wc s)) 3 = c \<and>
         stderr (snd (should_exit sm wc s)) =
           (if fst (should_exit sm wc s) then stderr s else stderr s @ press_again c)"
  using assms by (auto simp add: should_exit_result should_exit_window should_exit_streams)

theorem should_exit_doubled_press_witness:
  "fst (feed_should_exit ctrl_c_ctrl_d [3, 3] initial_state) = [False, True] \<and>
   stderr (snd (feed_should_exit ctrl_c_ctrl_d [3, 3] initial_state)) = press_again 3 \<and>
   fst (feed_should_exit ctrl_c_ctrl_d [4, 0x61, 4] initial_state) = [False, False, False]"
  using should_exit_doubled_press [of 3 3 ctrl_c_ctrl_d initial_state]
    should_exit_doubled_press [of 3 3 ctrl_c_ctrl_d "snd (should_exit ctrl_c_ctrl_d 3 initial_state)"]
    should_exit_doubled_press [of 4 4 ctrl_c_ctrl_d initial_state]
    should_exit_doubled_press [of 4 4 ctrl_c_ctrl_d
      "snd (should_exit ctrl_c_ctrl_d 0x61 (snd (should_exit ctrl_c_ctrl_d 4 initial_state)))"]
  by (simp add: should_exit_window should_exit_result should_exit_streams ctrl_c_ctrl_d_def
      initial_state_def memcmp4_eq_def)

text \<open>
  Claim C5 as stated: two consecutive calls with the configured interrupt character make the
  second call return true, and a single occurrence returns false with the warning. It fails
  at the two ends of the byte range. With the interrupt character 0 the window of zeros of
  the start state makes the very first call return true, without a warning; with the
  interrupt character 0xFF the code point 0xFF is narrowed to 0 and two calls both return
  false.
\<close>

theorem should_exit_double_press_counterexample:
  "fst (should_exit \<lparr>VINTR = 0, VEOF = 4\<rparr> 0 initial_state) \<and>
   stderr (snd (should_exit \<lparr>VINTR = 0, VEOF = 4\<rparr> 0 initial_state)) = [] \<and>
   fst (feed_should_exit \<lparr>VINTR = 0xFF, VEOF = 4\<rparr> [0xFF, 0xFF] initial_state) = [False, False]"
  by (simp add: should_exit_result should_exit_window should_exit_streams initial_state_def memcmp4_eq_def)

text \<open>
  Claim C5, amended: with an interrupt (or end-of-file) character \<open>cc\<close> below 0x80, two
  calls of \<^verbatim>\<open>should_exit\<close> with \<open>cc\<close> in immediate succession make the second call
  return true, from every state; a single occurrence, one whose preceding byte in the window
  is not \<open>cc\<close>, returns false and writes only the press-again warning.
\<close>

theorem consecutive_double_press_exits:
  assumes "cc = VINTR sm \<or> cc = VEOF sm" and "unat cc < 0x80"
  shows "fst (feed_should_exit sm [unat cc, unat cc] s) ! 1 \<and>
         (exit_recent_chars s 3 \<noteq> cc \<longrightarrow>
            \<not> fst (should_exit sm (unat cc) s) \<and>
            stderr (snd (should_exit sm (unat cc) s)) = stderr s @ press_again cc \<and>
            stdout (snd (should_exit sm (unat cc) s)) = stdout s)"
  using assms by (auto simp add: should_exit_result should_exit_window should_exit_streams)

theorem consecutive_double_press_exits_witness:
  "fst (feed_should_exit ctrl_c_ctrl_d [3, 3] initial_state) ! 1 \<and>
   \<not> fst (should_exit ctrl_c_ctrl_d 3 initial_state) \<and>
   stderr (snd (should_exit ctrl_c_ctrl_d 3 initial_state)) = ''Press [ctrl-C] again to exit'' @ [newline] \<and>
   fst (feed_should_exit ctrl_c_ctrl_d [4, 4] initial_state) ! 1 \<and>
   \<not> fst (should_exit ctrl_c_ctrl_d 4 initial_state) \<and>
   stderr (snd (should_exit ctrl_c_ctrl_d 4 initial_state)) = ''Press [ctrl-D] again to exit'' @ [newline]"
  using consecutive_double_press_exits [of 3 ctrl_c_ctrl_d initial_state]
    consecutive_double_press_exits [of 4 ctrl_c_ctrl_d initial_state]
  by (simp add: ctrl_c_ctrl_d_def initial_state_def press_again_def char_of_def bit_Suc_0_iff)

text \<open>
  Claim C6: from every window state, the calls for \<^verbatim>\<open>e x i t\<close> (or \<^verbatim>\<open>q u i t\<close>) make the
  fourth call return true, provided \<^verbatim>\<open>t\<close> is neither the interrupt nor the end-of-file
  character; a further call for \<^verbatim>\<open>e\<close> (the window is then \<^verbatim>\<open>xite\<close>) returns false.
\<close>

theorem exit_word_detected:
  assumes "VINTR sm \<noteq> 0x74" and "VEOF sm \<noteq> 0x74"
  shows "fst (feed_should_exit sm (map of_char ''exit'') s) ! 3 \<and>
         fst (feed_should_exit sm (map of_char ''quit'') s) ! 3 \<and>
         \<not> fst (feed_should_exit sm (map of_char ''exite'') s) ! 4"
  using assms by (simp add: should_exit_result should_exit_window memcmp4_eq_def)

theorem exit_word_detected_witness:
  "fst (feed_should_exit ctrl_c_ctrl_d (map of_char ''exit'') initial_state) = [False, False, False, True] \<and>
   fst (feed_should_exit ctrl_c_ctrl_d (map of_char ''quit'') initial_state) = [False, False, False, True] \<and>
   fst (feed_should_exit ctrl_c_ctrl_d (map of_char ''exite'') initial_state) = [False, False, False, True, False]"
  using exit_word_detected [of ctrl_c_ctrl_d initial_state]
  by (simp add: should_exit_result should_exit_window memcmp4_eq_def ctrl_c_ctrl_d_def initial_state_def)

section \<open>Elapsed time\<close>

lemma c_div_mod_nonneg: "0 \<le> a \<Longrightarrow> 0 < b \<Longrightarrow> c_div a b = a div b \<and> c_mod a b = a mod b"
  by (simp add: c_div_def c_mod_def)

lemma fourteen_spaces: "replicate 14 CHR '' '' = ''              ''"
  by (simp add: numeral_eq_Suc)

text \<open>
  Claim C8: with \<open>delta_us\<close> the value of \<^verbatim>\<open>1000000 * (now - prev_tstamp)\<close> as the program
  computes and converts it, \<^verbatim>\<open>output_elapsed_time\<close> first writes a line break if and only
  if \<open>delta_us \<ge> 200000\<close> and a character has been seen, then 14 spaces if
  \<open>delta_us \<ge> 1000000\<close> and otherwise \<^verbatim>\<open>(DDD.DDD ms)\<close> and two spaces, from
  \<open>delta_us / 1000\<close> and \<open>delta_us % 1000\<close>; it returns \<open>now\<close>, the new previous
  timestamp, in every case, and changes nothing else.
\<close>

theorem output_elapsed_time_display:
  assumes "delta_us = sint delta_tstamp_us"
  shows "output_elapsed_time now delta_tstamp_us seen s =
     (now,
      s\<lparr>stderr := stderr s
         @ (if 200000 \<le> delta_us \<and> seen then [newline] else [])
         @ (if 1000000 \<le> delta_us then replicate 14 CHR '' ''
            else ''('' @ printf_d CHR '' '' 3 (c_div delta_us 1000) @ ''.''
                 @ printf_d CHR ''0'' 3 (c_mod delta_us 1000) @ '' ms)  '')\<rparr>) \<and>
   (0 \<le> delta_us \<longrightarrow> c_div delta_us 1000 = delta_us div 1000 \<and> c_mod delta_us 1000 = delta_us mod 1000)"
  using assms by (simp add: output_elapsed_time_def Let_def c_div_mod_nonneg fourteen_spaces)

lemma printf_d_examples:
  "printf_d CHR '' '' 3 250 = ''250''"
  "printf_d CHR ''0'' 3 0 = ''000''"
  "printf_d CHR '' '' 3 15 = '' 15''"
  "printf_d CHR ''0'' 3 625 = ''625''"
  by (simp_all add: printf_d_def pad_def decimal_lt10 decimal_ge10 digit_char_def numeral_2_eq_2)

theorem output_elapsed_time_display_witness:
  "output_elapsed_time 17.25 250000 True initial_state =
     (17.25, initial_state\<lparr>stderr := [newline] @ ''(250.000 ms)  ''\<rparr>) \<and>
   output_elapsed_time 18.5 1500000 True initial_state =
     (18.5, initial_state\<lparr>stderr := [newline] @ ''              ''\<rparr>) \<and>
   output_elapsed_time 17.015625 15625 True initial_state =
     (17.015625, initial_state\<lparr>stderr := ''( 15.625 ms)  ''\<rparr>) \<and>
   output_elapsed_time 17.25 250000 False initial_state =
     (17.25, initial_state\<lparr>stderr := ''(250.000 ms)  ''\<rparr>)"
proof -
  have a: "250000 = sint (250000 :: long_long)"
    and b: "1500000 = sint (1500000 :: long_long)"
    and c: "15625 = sint (15625 :: long_long)"
    by simp_all
  have d: "c_div 250000 1000 = 250" "c_mod 250000 1000 = 0" "c_div 15625 1000 = 15" "c_mod 15625 1000 = 625"
    by (simp_all add: c_div_def c_mod_def)
  show ?thesis
    using output_elapsed_time_display [OF a, of "17.25" True initial_state]
      output_elapsed_time_display [OF b, of "18.5" True initial_state]
      output_elapsed_time_display [OF c, of "17.015625" True initial_state]
      output_elapsed_time_display [OF a, of "17.25" False initial_state]
    by (simp add: d printf_d_examples fourteen_spaces initial_state_def)
qed

section \<open>Signal handler\<close>

text \<open>
  Claim C9: for every signal number that the handler is installed for (an index of
  \<^verbatim>\<open>old_sigactions\<close>), the handler returns, reports the signal on the primary output, and
  leaves \<^verbatim>\<open>keep_running\<close> true exactly when it was true before and the signal is none of
  SIGHUP, SIGTERM, SIGABRT and SIGSEGV: it clears the flag for these four and does not
  change it for any other signal.
\<close>

theorem signal_handler_keep_running:
  assumes "0 \<le> signo" and "signo < 32"
  shows "map_option keep_running (signal_handler ext signo s) =
           Some (keep_running s \<and> signo \<notin> {SIGHUP, SIGTERM, SIGABRT, SIGSEGV}) \<and>
         map_option stdout (signal_handler ext signo s) =
           Some (stdout s @ ''signal #'' @ printf_d CHR '' '' 0 signo @ '' ('' @ sig2wcs ext signo
                   @ '') received'' @ [newline])"
  using assms
  by (cases "sa_handler (old_sigactions s (nat signo))") (simp_all add: signal_handler_def Let_def)

lemma printf_d_signo:
  "printf_d CHR '' '' 0 15 = ''15''" "printf_d CHR '' '' 0 2 = ''2''"
  by (simp_all add: printf_d_def pad_def decimal_lt10 decimal_ge10 digit_char_def)

theorem signal_handler_keep_running_witness:
  "map_option keep_running (signal_handler two_entry_table 15 initial_state) = Some False \<and>
   map_option stdout (signal_handler two_entry_table 15 initial_state) =
     Some (''signal #15 (SIG) received'' @ [newline]) \<and>
   map_option keep_running (signal_handler two_entry_table 2 initial_state) = Some True \<and>
   map_option stdout (signal_handler two_entry_table 2 initial_state) =
     Some (''signal #2 (SIG) received'' @ [newline])"
  using signal_handler_keep_running [of 15 two_entry_table initial_state]
    signal_handler_keep_running [of 2 two_entry_table initial_state]
  by (simp add: printf_d_signo initial_state_def two_entry_table_def SIGHUP_def SIGTERM_def SIGABRT_def SIGSEGV_def)

section \<open>Terminal-sequence matcher\<close>

lemma sequence_search_None:
  "sequence_search ext rc n = None \<longleftrightarrow>
     (\<forall>idx\<le>n. input_terminfo_get_name ext (str2wcstring ext (window_from rc idx)) = None)"
  by (induction n) (auto simp add: le_Suc_eq split: option.splits)

lemma sequence_search_Some:
  "idx \<le> n \<Longrightarrow> input_terminfo_get_name ext (str2wcstring ext (window_from rc idx)) = Some name \<Longrightarrow>
   (\<forall>j. idx < j \<and> j \<le> n \<longrightarrow> input_terminfo_get_name ext (str2wcstring ext (window_from rc j)) = None) \<Longrightarrow>
   sequence_search ext rc n = Some name"
proof (induction n)
  case 0
  then show ?case by simp
next
  case (Suc n)
  show ?case
  proof (cases "idx = Suc n")
    case True
    with Suc.prems show ?thesis by simp
  next
    case False
    with Suc.prems have "idx \<le> n" by simp
    moreover from False Suc.prems
    have "input_terminfo_get_name ext (str2wcstring ext (window_from rc (Suc n))) = None" by simp
    ultimately show ?thesis using Suc by simp
  qed
qed

lemma sequence_name_result:
  "fst (sequence_name ext wc s) = sequence_search ext (seq_recent_chars (snd (sequence_name ext wc s))) 7"
  by (simp add: sequence_name_def Let_def)

lemma sequence_name_window:
  "seq_recent_chars (snd (sequence_name ext wc s)) 0 = seq_recent_chars s 1"
  "seq_recent_chars (snd (sequence_name ext wc s)) (Suc 0) = seq_recent_chars s 2"
  "seq_recent_chars (snd (sequence_name ext wc s)) 2 = seq_recent_chars s 3"
  "seq_recent_chars (snd (sequence_name ext wc s)) 3 = seq_recent_chars s 4"
  "seq_recent_chars (snd (sequence_name ext wc s)) 4 = seq_recent_chars s 5"
  "seq_recent_chars (snd (sequence_name ext wc s)) 5 = seq_recent_chars s 6"
  "seq_recent_chars (snd (sequence_name ext wc s)) 6 = seq_recent_chars s 7"
  "seq_recent_chars (snd (sequence_name ext wc s)) 7 = (if wc < 0x80 then word_of_nat wc else 0)"
  by (simp_all add: sequence_name_def Let_def)

lemma upt_to_8:
  "[0..<8] = [0, 1, 2, 3, 4, 5, 6, 7::nat]" "[1..<8] = [1, 2, 3, 4, 5, 6, 7::nat]"
  "[2..<8] = [2, 3, 4, 5, 6, 7::nat]" "[3..<8] = [3, 4, 5, 6, 7::nat]" "[4..<8] = [4, 5, 6, 7::nat]"
  "[5..<8] = [5, 6, 7::nat]" "[6..<8] = [6, 7::nat]" "[7..<8] = [7::nat]"
  "[Suc 0..<8] = [Suc 0, 2, 3, 4, 5, 6, 7]"
  by (simp_all add: upt_conv_Cons numeral_eq_Suc)

lemma sequence_search_7:
  "sequence_search ext rc 7 =
     (case input_terminfo_get_name ext (str2wcstring ext [rc 7]) of Some n \<Rightarrow> Some n | None \<Rightarrow>
      case input_terminfo_get_name ext (str2wcstring ext [rc 6, rc 7]) of Some n \<Rightarrow> Some n | None \<Rightarrow>
      case input_terminfo_get_name ext (str2wcstring ext [rc 5, rc 6, rc 7]) of Some n \<Rightarrow> Some n | None \<Rightarrow>
      case input_terminfo_get_name ext (str2wcstring ext [rc 4, rc 5, rc 6, rc 7]) of Some n \<Rightarrow> Some n | None \<Rightarrow>
      case input_terminfo_get_name ext (str2wcstring ext [rc 3, rc 4, rc 5, rc 6, rc 7]) of Some n \<Rightarrow> Some n | None \<Rightarrow>
      case input_terminfo_get_name ext (str2wcstring ext [rc 2, rc 3, rc 4, rc 5, rc 6, rc 7]) of Some n \<Rightarrow> Some n | None \<Rightarrow>
      case input_terminfo_get_name ext (str2wcstring ext [rc 1, rc 2, rc 3, rc 4, rc 5, rc 6, rc 7]) of Some n \<Rightarrow> Some n | None \<Rightarrow>
      input_terminfo_get_name ext (str2wcstring ext [rc 0, rc 1, rc 2, rc 3, rc 4, rc 5, rc 6, rc 7]))"
proof -
  have w: "window_from rc 7 = [rc 7]" "window_from rc 6 = [rc 6, rc 7]"
    "window_from rc 5 = [rc 5, rc 6, rc 7]" "window_from rc 4 = [rc 4, rc 5, rc 6, rc 7]"
    "window_from rc 3 = [rc 3, rc 4, rc 5, rc 6, rc 7]"
    "window_from rc 2 = [rc 2, rc 3, rc 4, rc 5, rc 6, rc 7]"
    "window_from rc 1 = [rc 1, rc 2, rc 3, rc 4, rc 5, rc 6, rc 7]"
    "window_from rc 0 = [rc 0, rc 1, rc 2, rc 3, rc 4, rc 5, rc 6, rc 7]"
    by (simp_all only: window_from_def upt_to_8 list.map)
  have "sequence_search ext rc 7 =
     (case input_terminfo_get_name ext (str2wcstring ext (window_from rc 7)) of Some n \<Rightarrow> Some n | None \<Rightarrow>
      case input_terminfo_get_name ext (str2wcstring ext (window_from rc 6)) of Some n \<Rightarrow> Some n | None \<Rightarrow>
      case input_terminfo_get_name ext (str2wcstring ext (window_from rc 5)) of Some n \<Rightarrow> Some n | None \<Rightarrow>
      case input_terminfo_get_name ext (str2wcstring ext (window_from rc 4)) of Some n \<Rightarrow> Some n | None \<Rightarrow>
      case input_terminfo_get_name ext (str2wcstring ext (window_from rc 3)) of Some n \<Rightarrow> Some n | None \<Rightarrow>
      case input_terminfo_get_name ext (str2wcstring ext (window_from rc 2)) of Some n \<Rightarrow> Some n | None \<Rightarrow>
      case input_terminfo_get_name ext (str2wcstring ext (window_from rc 1)) of Some n \<Rightarrow> Some n | None \<Rightarrow>
      input_terminfo_get_name ext (str2wcstring ext (window_from rc 0)))"
    by (simp add: numeral_eq_Suc split: option.split)
  then show ?thesis by (simp only: w)
qed

text \<open>
  Claim C1 as stated: \<^verbatim>\<open>sequence_name\<close> tries the suffix lengths from 8 down to 1 and
  returns the name of the longest matching suffix. It fails for a table that knows both
  \<^verbatim>\<open>ESC [ A\<close> (named \<^verbatim>\<open>up\<close>) and its suffix \<^verbatim>\<open>A\<close> (named \<^verbatim>\<open>A\<close>): after the bytes
  \<^verbatim>\<open>ESC [ A\<close> the trailing three bytes of the window are the sequence of \<^verbatim>\<open>up\<close>, and
  the function returns \<^verbatim>\<open>A\<close>.
\<close>

theorem sequence_name_longest_counterexample:
  "window_from (seq_recent_chars (snd (sequence_name two_entry_table 0x41
      (snd (sequence_name two_entry_table 0x5B
        (snd (sequence_name two_entry_table 0x1B initial_state))))))) 5 = [0x1B, 0x5B, 0x41] \<and>
   input_terminfo_get_name two_entry_table (str2wcstring two_entry_table [0x1B, 0x5B, 0x41]) = Some ''up'' \<and>
   input_terminfo_get_name two_entry_table (str2wcstring two_entry_table [0x41]) = Some ''A'' \<and>
   fst (sequence_name two_entry_table 0x41
      (snd (sequence_name two_entry_table 0x5B
        (snd (sequence_name two_entry_table 0x1B initial_state))))) = Some ''A''"
  by (simp add: sequence_name_result sequence_search_7 sequence_name_window window_from_def upt_to_8
      two_entry_table_def initial_state_def)

text \<open>
  Claim C1, amended: \<^verbatim>\<open>sequence_name\<close> pushes the byte into the 8-byte window and tries
  the suffix lengths from 1 up to 8 (the index \<open>idx\<close> runs from 7 down to 0 and the suffix
  has \<open>8 - idx\<close> bytes). It returns nothing exactly when no suffix of a length from 1 to 8
  is in the table, and when the suffix of length \<open>L\<close> is in the table and no shorter suffix
  is, it returns the name of that suffix: the shortest match wins.
\<close>

theorem sequence_name_shortest_match:
  "(fst (sequence_name ext wc s) = None \<longleftrightarrow>
      (\<forall>L\<in>{1..8}. input_terminfo_get_name ext (str2wcstring ext
          (window_from (seq_recent_chars (snd (sequence_name ext wc s))) (8 - L))) = None)) \<and>
   (\<forall>L\<in>{1..8}. \<forall>name.
      input_terminfo_get_name ext (str2wcstring ext
          (window_from (seq_recent_chars (snd (sequence_name ext wc s))) (8 - L))) = Some name \<and>
      (\<forall>K\<in>{1..<L}. input_terminfo_get_name ext (str2wcstring ext
          (window_from (seq_recent_chars (snd (sequence_name ext wc s))) (8 - K))) = None)
      \<longrightarrow> fst (sequence_name ext wc s) = Some name) \<and>
   (\<forall>L\<in>{1..8}. length (window_from (seq_recent_chars (snd (sequence_name ext wc s))) (8 - L)) = L) \<and>
   seq_recent_chars (snd (sequence_name ext wc s)) 7 = (if wc < 0x80 then word_of_nat wc else 0)"
proof (intro conjI ballI allI impI)
  let ?rc = "seq_recent_chars (snd (sequence_name ext wc s))"
  let ?look = "\<lambda>idx. input_terminfo_get_name ext (str2wcstring ext (window_from ?rc idx))"
  show "fst (sequence_name ext wc s) = None \<longleftrightarrow> (\<forall>L\<in>{1..8}. ?look (8 - L) = None)"
  proof
    assume "fst (sequence_name ext wc s) = None"
    then have a: "\<forall>idx\<le>7. ?look idx = None"
      by (simp add: sequence_name_result sequence_search_None)
    show "\<forall>L\<in>{1..8}. ?look (8 - L) = None"
    proof
      fix L :: nat assume "L \<in> {1..8}"
      then have "8 - L \<le> 7" by auto
      with a show "?look (8 - L) = None" by blast
    qed
  next
    assume b: "\<forall>L\<in>{1..8}. ?look (8 - L) = None"
    have "\<forall>idx\<le>7. ?look idx = None"
    proof (intro allI impI)
      fix idx :: nat assume "idx \<le> 7"
      then have "8 - idx \<in> {1..8}" and "8 - (8 - idx) = idx" by auto
      with b show "?look idx = None" by metis
    qed
    then show "fst (sequence_name ext wc s) = None"
      by (simp add: sequence_name_result sequence_search_None)
  qed
next
  let ?rc = "seq_recent_chars (snd (sequence_name ext wc s))"
  let ?look = "\<lambda>idx. input_terminfo_get_name ext (str2wcstring ext (window_from ?rc idx))"
  fix L name
  assume L: "L \<in> {1..8}"
    and h: "?look (8 - L) = Some name \<and> (\<forall>K\<in>{1..<L}. ?look (8 - K) = None)"
  have "\<forall>j. 8 - L < j \<and> j \<le> 7 \<longrightarrow> ?look j = None"
  proof (intro allI impI)
    fix j :: nat assume "8 - L < j \<and> j \<le> 7"
    with L have "8 - j \<in> {1..<L}" and "8 - (8 - j) = j" by auto
    with h show "?look j = None" by metis
  qed
  moreover from L have "8 - L \<le> 7" by auto
  ultimately have "sequence_search ext ?rc 7 = Some name"
    using h by (intro sequence_search_Some [where idx = "8 - L"]) simp_all
  then show "fst (sequence_name ext wc s) = Some name"
    by (simp add: sequence_name_result)
next
  fix L :: nat assume "L \<in> {1..8}"
  then show "length (window_from (seq_recent_chars (snd (sequence_name ext wc s))) (8 - L)) = L"
    by (auto simp add: window_from_def)
next
  show "seq_recent_chars (snd (sequence_name ext wc s)) 7 = (if wc < 0x80 then word_of_nat wc else 0)"
    by (simp add: sequence_name_window)
qed

theorem sequence_name_shortest_match_witness:
  "fst (sequence_name two_entry_table 0x41
      (snd (sequence_name two_entry_table 0x5B
        (snd (sequence_name two_entry_table 0x1B initial_state))))) = Some ''A'' \<and>
   fst (sequence_name two_entry_table 0x5B
        (snd (sequence_name two_entry_table 0x1B initial_state))) = None"
proof -
  let ?s1 = "snd (sequence_name two_entry_table 0x1B initial_state)"
  let ?s2 = "snd (sequence_name two_entry_table 0x5B ?s1)"
  have one: "(1::nat) \<in> {1..8}" by simp
  have "fst (sequence_name two_entry_table 0x41 ?s2) = Some ''A''"
    by (rule sequence_name_shortest_match [of two_entry_table "0x41" "?s2",
          THEN conjunct2, THEN conjunct1, rule_format, OF one])
       (simp add: sequence_name_window window_from_def upt_to_8 two_entry_table_def)
  moreover have "fst (sequence_name two_entry_table 0x5B ?s1) = None"
  proof -
    have set8: "{1..8::nat} = {1, 2, 3, 4, 5, 6, 7, 8}" by auto
    have "\<forall>L\<in>{1..8}. input_terminfo_get_name two_entry_table (str2wcstring two_entry_table
            (window_from (seq_recent_chars (snd (sequence_name two_entry_table 0x5B ?s1))) (8 - L))) = None"
      unfolding set8
      by (simp add: sequence_name_window window_from_def upt_to_8 two_entry_table_def initial_state_def)
    then show ?thesis
      by (simp only: sequence_name_shortest_match [of two_entry_table "0x5B" "?s1", THEN conjunct1])
  qed
  ultimately show ?thesis by simp
qed

section \<open>Session loop\<close>

lemma output_elapsed_time_frame:
  "fst (output_elapsed_time now d f s) = now"
  "keep_running (snd (output_elapsed_time now d f s)) = keep_running s"
  "old_sigactions (snd (output_elapsed_time now d f s)) = old_sigactions s"
  "exit_recent_chars (snd (output_elapsed_time now d f s)) = exit_recent_chars s"
  "seq_recent_chars (snd (output_elapsed_time now d f s)) = seq_recent_chars s"
  "first_char_seen (snd (output_elapsed_time now d f s)) = first_char_seen s"
  "bind_chars (snd (output_elapsed_time now d f s)) = bind_chars s"
  "stdout (snd (output_elapsed_time now d f s)) = stdout s"
  by (simp_all add: output_elapsed_time_def Let_def)

lemma sequence_name_frame:
  "keep_running (snd (sequence_name ext wc s)) = keep_running s"
  "old_sigactions (snd (sequence_name ext wc s)) = old_sigactions s"
  "exit_recent_chars (snd (sequence_name ext wc s)) = exit_recent_chars s"
  "first_char_seen (snd (sequence_name ext wc s)) = first_char_seen s"
  "bind_chars (snd (sequence_name ext wc s)) = bind_chars s"
  "stdout (snd (sequence_name ext wc s)) = stdout s"
  by (simp_all add: sequence_name_def Let_def)

lemma sequence_name_cong:
  "seq_recent_chars s = seq_recent_chars t \<Longrightarrow>
     fst (sequence_name ext wc s) = fst (sequence_name ext wc t) \<and>
     seq_recent_chars (snd (sequence_name ext wc s)) = seq_recent_chars (snd (sequence_name ext wc t))"
  by (simp add: sequence_name_def Let_def)

lemma should_exit_frame:
  "keep_running (snd (should_exit sm wc s)) = keep_running s"
  "old_sigactions (snd (should_exit sm wc s)) = old_sigactions s"
  "seq_recent_chars (snd (should_exit sm wc s)) = seq_recent_chars s"
  "first_char_seen (snd (should_exit sm wc s)) = first_char_seen s"
  "bind_chars (snd (should_exit sm wc s)) = bind_chars s"
  by (simp_all add: should_exit_def Let_def)

lemma should_exit_cong:
  "exit_recent_chars s = exit_recent_chars t \<Longrightarrow>
     fst (should_exit sm wc s) = fst (should_exit sm wc t) \<and>
     exit_recent_chars (snd (should_exit sm wc s)) = exit_recent_chars (snd (should_exit sm wc t))"
  by (simp add: should_exit_def Let_def)

lemma output_bind_command_frame:
  "keep_running (output_bind_command s) = keep_running s"
  "old_sigactions (output_bind_command s) = old_sigactions s"
  "exit_recent_chars (output_bind_command s) = exit_recent_chars s"
  "seq_recent_chars (output_bind_command s) = seq_recent_chars s"
  "first_char_seen (output_bind_command s) = first_char_seen s"
  "bind_chars (output_bind_command s) = []"
  by (cases "bind_chars s = []"; simp add: output_bind_command_nonempty output_bind_command_empty)+

lemma output_matching_key_name_frame:
  "fst (output_matching_key_name ext wc s) = (fst (sequence_name ext wc s) \<noteq> None)"
  "keep_running (snd (output_matching_key_name ext wc s)) = keep_running s"
  "old_sigactions (snd (output_matching_key_name ext wc s)) = old_sigactions s"
  "exit_recent_chars (snd (output_matching_key_name ext wc s)) = exit_recent_chars s"
  "seq_recent_chars (snd (output_matching_key_name ext wc s)) = seq_recent_chars (snd (sequence_name ext wc s))"
  "first_char_seen (snd (output_matching_key_name ext wc s)) = first_char_seen s"
  "bind_chars (snd (output_matching_key_name ext wc s)) = bind_chars s"
  "stdout (snd (output_matching_key_name ext wc s)) =
     stdout s @ (case fst (sequence_name ext wc s) of None \<Rightarrow> []
                 | Some name \<Rightarrow> ''bind -k '' @ name @ '' '' @ [apostrophe] @ ''do something''
                                @ [apostrophe, newline])"
  by (simp_all add: output_matching_key_name_def case_prod_beta sequence_name_frame
      split: option.split)

lemma character_event_summary:
  "fst (character_event ext sm wc now d s) = fst (should_exit sm wc s) \<and>
   keep_running (snd (character_event ext sm wc now d s)) = keep_running s \<and>
   old_sigactions (snd (character_event ext sm wc now d s)) = old_sigactions s \<and>
   exit_recent_chars (snd (character_event ext sm wc now d s)) = exit_recent_chars (snd (should_exit sm wc s)) \<and>
   seq_recent_chars (snd (character_event ext sm wc now d s)) = seq_recent_chars (snd (sequence_name ext wc s)) \<and>
   first_char_seen (snd (character_event ext sm wc now d s)) = (fst (should_exit sm wc s) \<longrightarrow> first_char_seen s) \<and>
   bind_chars (snd (character_event ext sm wc now d s)) =
     (if fst (sequence_name ext wc s) = None then bind_chars s @ [wc] else []) \<and>
   stdout (snd (character_event ext sm wc now d s)) =
     stdout s @ (case fst (sequence_name ext wc s) of None \<Rightarrow> []
                 | Some name \<Rightarrow>
                     ''bind -k '' @ name @ '' '' @ [apostrophe] @ ''do something'' @ [apostrophe, newline]
                     @ ''bind '' @ concat (map (\<lambda>c. char_to_symbol c True) (bind_chars s @ [wc]))
                     @ '' '' @ [apostrophe] @ ''do something'' @ [apostrophe, newline])"
proof -
  define s4 where "s4 = output_info_about_char wc (add_char_to_bind_command wc
      ((snd (output_elapsed_time now d (first_char_seen s) s))\<lparr>prev_tstamp := now\<rparr>))"
  define m where "m = fst (output_matching_key_name ext wc s4)"
  define s5 where "s5 = snd (output_matching_key_name ext wc s4)"
  define s6 where "s6 = (if m then output_bind_command s5 else s5)"
  define s7 where "s7 = snd (should_exit sm wc s6)"
  have r: "character_event ext sm wc now d s =
      (if fst (should_exit sm wc s6)
       then (True, s7\<lparr>stderr := stderr s7 @ [newline] @ ''Exiting at your request.'' @ [newline]\<rparr>)
       else (False, s7\<lparr>first_char_seen := True\<rparr>))"
    by (simp add: character_event_def Let_def case_prod_beta s4_def m_def s5_def s6_def s7_def
        output_elapsed_time_frame(1))
  have p4: "keep_running s4 = keep_running s" "old_sigactions s4 = old_sigactions s"
    "exit_recent_chars s4 = exit_recent_chars s" "seq_recent_chars s4 = seq_recent_chars s"
    "first_char_seen s4 = first_char_seen s" "bind_chars s4 = bind_chars s @ [wc]"
    "stdout s4 = stdout s"
    by (simp_all add: s4_def add_char_to_bind_command_def output_info_about_char_def
        output_elapsed_time_frame)
  have sq: "fst (sequence_name ext wc s4) = fst (sequence_name ext wc s)"
    "seq_recent_chars (snd (sequence_name ext wc s4)) = seq_recent_chars (snd (sequence_name ext wc s))"
    using sequence_name_cong [OF p4(4), of ext wc] by simp_all
  have m: "m = (fst (sequence_name ext wc s) \<noteq> None)"
    by (simp add: m_def output_matching_key_name_frame sq)
  have p5: "keep_running s5 = keep_running s" "old_sigactions s5 = old_sigactions s"
    "exit_recent_chars s5 = exit_recent_chars s"
    "seq_recent_chars s5 = seq_recent_chars (snd (sequence_name ext wc s))"
    "first_char_seen s5 = first_char_seen s" "bind_chars s5 = bind_chars s @ [wc]"
    "stdout s5 = stdout s @ (case fst (sequence_name ext wc s) of None \<Rightarrow> []
                 | Some name \<Rightarrow> ''bind -k '' @ name @ '' '' @ [apostrophe] @ ''do something''
                                @ [apostrophe, newline])"
    by (simp_all add: s5_def output_matching_key_name_frame p4 sq)
  have ne: "bind_chars s5 \<noteq> []" by (simp add: p5)
  have p6: "keep_running s6 = keep_running s" "old_sigactions s6 = old_sigactions s"
    "exit_recent_chars s6 = exit_recent_chars s"
    "seq_recent_chars s6 = seq_recent_chars (snd (sequence_name ext wc s))"
    "first_char_seen s6 = first_char_seen s"
    by (simp_all add: s6_def output_bind_command_frame p5)
  have b6: "bind_chars s6 = (if fst (sequence_name ext wc s) = None then bind_chars s @ [wc] else [])"
    by (simp add: s6_def m output_bind_command_frame p5)
  have o6: "stdout s6 = stdout s @ (case fst (sequence_name ext wc s) of None \<Rightarrow> []
                 | Some name \<Rightarrow>
                     ''bind -k '' @ name @ '' '' @ [apostrophe] @ ''do something'' @ [apostrophe, newline]
                     @ ''bind '' @ concat (map (\<lambda>c. char_to_symbol c True) (bind_chars s @ [wc]))
                     @ '' '' @ [apostrophe] @ ''do something'' @ [apostrophe, newline])"
    by (cases "fst (sequence_name ext wc s)")
       (simp_all add: s6_def m output_bind_command_nonempty [OF ne] p5)
  have ex: "fst (should_exit sm wc s6) = fst (should_exit sm wc s)"
    "exit_recent_chars (snd (should_exit sm wc s6)) = exit_recent_chars (snd (should_exit sm wc s))"
    using should_exit_cong [OF p6(3), of sm wc] by simp_all
  have p7: "keep_running s7 = keep_running s" "old_sigactions s7 = old_sigactions s"
    "exit_recent_chars s7 = exit_recent_chars (snd (should_exit sm wc s))"
    "seq_recent_chars s7 = seq_recent_chars (snd (sequence_name ext wc s))"
    "first_char_seen s7 = first_char_seen s"
    "bind_chars s7 = (if fst (sequence_name ext wc s) = None then bind_chars s @ [wc] else [])"
    "stdout s7 = stdout s6"
    by (simp_all add: s7_def should_exit_frame should_exit_streams ex p6 b6)
  show ?thesis
    by (cases "fst (should_exit sm wc s)") (simp_all add: r ex p7 o6)
qed

text \<open>
  Claim C10: on a character event the character is appended to the accumulator before the
  matcher is consulted. So when the character completes a known capability sequence, the
  primary output receives the line \<^verbatim>\<open>bind -k <name> 'do something'\<close> and then the flushed
  accumulator, whose last symbol is the rendering of that same character; the accumulator
  is empty afterwards.
\<close>

theorem character_event_flush_has_closing_char:
  assumes "fst (sequence_name ext wc s) = Some name"
  shows "stdout (snd (character_event ext sm wc now d s)) =
           stdout s
           @ ''bind -k '' @ name @ '' '' @ [apostrophe] @ ''do something'' @ [apostrophe, newline]
           @ ''bind '' @ concat (map (\<lambda>c. char_to_symbol c True) (bind_chars s)) @ char_to_symbol wc True
           @ '' '' @ [apostrophe] @ ''do something'' @ [apostrophe, newline] \<and>
         bind_chars (snd (character_event ext sm wc now d s)) = []"
  using assms by (simp add: character_event_summary)

lemma char_to_symbol_A: "char_to_symbol 0x41 True = ''A''" "char_to_symbol 0x5B True = backslash # ''[''"
  "char_to_symbol 0x1B True = backslash # ''e''"
  by (simp_all add: char_to_symbol_def ascii_printable_to_symbol_def ctrl_to_symbol_def ctrl_symbolic_names_def
      must_escape_def backslash_def apostrophe_def dquote_def char_of_def bit_Suc_0_iff)

theorem character_event_flush_has_closing_char_witness:
  "stdout (snd (character_event two_entry_table ctrl_c_ctrl_d 0x41 2 1000000
      (initial_state\<lparr>bind_chars := [0x1B, 0x5B]\<rparr>))) =
     ''bind -k A '' @ [apostrophe] @ ''do something'' @ [apostrophe, newline]
     @ ''bind '' @ [backslash] @ ''e'' @ [backslash] @ ''[A '' @ [apostrophe] @ ''do something'' @ [apostrophe, newline] \<and>
   bind_chars (snd (character_event two_entry_table ctrl_c_ctrl_d 0x41 2 1000000
      (initial_state\<lparr>bind_chars := [0x1B, 0x5B]\<rparr>))) = []"
proof -
  have "fst (sequence_name two_entry_table 0x41 (initial_state\<lparr>bind_chars := [0x1B, 0x5B]\<rparr>)) = Some ''A''"
    by (simp add: sequence_name_result sequence_search_7 sequence_name_window two_entry_table_def)
  from character_event_flush_has_closing_char [OF this, of ctrl_c_ctrl_d 2 1000000]
  show ?thesis by (simp add: initial_state_def char_to_symbol_A)
qed

lemma process_input_loop_append:
  "process_input_loop ext sm cm ir inputs s = (At_loop_test, s') \<Longrightarrow>
     process_input_loop ext sm cm ir (inputs @ rest) s = process_input_loop ext sm cm False rest s'"
  "process_input_loop ext sm cm ir inputs s = (Awaiting_input, s') \<Longrightarrow>
     process_input_loop ext sm cm ir (inputs @ rest) s = process_input_loop ext sm cm True rest s'"
proof (induction ext sm cm ir inputs s rule: process_input_loop.induct)
  case (1 ext shell_modes continuous_mode in_round s)
  { case 1 then show ?case by (auto split: if_splits) }
  { case 2 then show ?case by (auto split: if_splits) }
next
  case (2 ext shell_modes continuous_mode in_round signo inputs s)
  { case 1 with 2 show ?case by (auto split: option.splits) }
  { case 2 with "2.IH" show ?case by (auto split: option.splits) }
next
  case (3 ext shell_modes continuous_mode in_round signo inputs s)
  { case 1 with 3 show ?case by (auto split: option.splits if_splits) }
  { case 2 with "3.IH" show ?case by (auto split: option.splits if_splits) }
next
  case (4 ext shell_modes continuous_mode in_round inputs s)
  { case 1 with 4 show ?case by (auto simp add: Let_def split: if_splits) }
  { case 2 with "4.IH" show ?case by (auto simp add: Let_def split: if_splits) }
next
  case (5 ext shell_modes continuous_mode in_round now delta_tstamp_us inputs s)
  { case 1 with 5 show ?case by (auto split: if_splits prod.splits bool.splits) }
  { case 2 with "5.IH" show ?case by (auto split: if_splits prod.splits bool.splits) }
next
  case (6 ext shell_modes continuous_mode in_round wc now delta_tstamp_us inputs s)
  { case 1 with 6 show ?case by (auto split: if_splits prod.splits bool.splits) }
  { case 2 with "6.IH" show ?case by (auto split: if_splits prod.splits bool.splits) }
qed

lemma at_loop_test_keep_running:
  "process_input_loop ext sm cm ir inputs s = (At_loop_test, s') \<Longrightarrow> keep_running s'"
proof (induction ext sm cm ir inputs s rule: process_input_loop.induct)
  case (1 ext shell_modes continuous_mode in_round s)
  then show ?case by (auto split: if_splits)
next
  case (2 ext shell_modes continuous_mode in_round signo inputs s)
  then show ?case by (auto split: option.splits)
next
  case (3 ext shell_modes continuous_mode in_round signo inputs s)
  then show ?case by (auto split: option.splits if_splits)
next
  case (4 ext shell_modes continuous_mode in_round inputs s)
  then show ?case by (auto simp add: Let_def split: if_splits)
next
  case (5 ext shell_modes continuous_mode in_round now delta_tstamp_us inputs s)
  then show ?case by (auto split: if_splits prod.splits bool.splits)
next
  case (6 ext shell_modes continuous_mode in_round wc now delta_tstamp_us inputs s)
  then show ?case by (auto split: if_splits prod.splits bool.splits)
qed

lemma process_input_append:
  "process_input ext sm cm inputs s = (At_loop_test, s') \<Longrightarrow>
   process_input ext sm cm (inputs @ rest) s = process_input_loop ext sm cm False rest s' \<and> keep_running s'"
  unfolding process_input_def by (simp add: process_input_loop_append at_loop_test_keep_running)

lemma signal_handler_terminating:
  "signo \<in> {SIGHUP, SIGTERM, SIGABRT, SIGSEGV} \<Longrightarrow>
   \<exists>s'. signal_handler ext signo s = Some s' \<and> \<not> keep_running s' \<and> bind_chars s' = bind_chars s \<and>
     first_char_seen s' = first_char_seen s \<and> exit_recent_chars s' = exit_recent_chars s \<and>
     seq_recent_chars s' = seq_recent_chars s \<and>
     stdout s' = stdout s @ ''signal #'' @ printf_d CHR '' '' 0 signo @ '' ('' @ sig2wcs ext signo
                   @ '') received'' @ [newline]"
  by (cases "sa_handler (old_sigactions s (nat signo))")
     (auto simp add: signal_handler_def Let_def SIGHUP_def SIGTERM_def SIGABRT_def SIGSEGV_def)

lemmas run_simps = process_input_def case_prod_beta character_event_summary
  should_exit_result should_exit_window memcmp4_eq_def
  sequence_name_result sequence_search_7 sequence_name_window
  two_entry_table_def ctrl_c_ctrl_d_def initial_state_def

text \<open>
  Claim C3 as stated: whenever the loop terminates with a non-empty accumulator, also through
  the exit-sequence detector or the \<^verbatim>\<open>keep_running\<close> flag, the pending \<^verbatim>\<open>bind\<close> line is
  written before \<^verbatim>\<open>process_input\<close> returns. It fails on both paths: after the characters
  \<^verbatim>\<open>e x i t\<close> the function returns with the four characters accumulated and an empty
  primary output; and when SIGTERM arrives while the second round waits and the character
  \<^verbatim>\<open>b\<close> follows \<^verbatim>\<open>a\<close>, it returns with both accumulated and only the report of the
  signal on the primary output.
\<close>

theorem process_input_exit_without_flush_counterexample:
  "fst (process_input two_entry_table ctrl_c_ctrl_d True
          [Read_char 0x65 1 1000000, Read_char 0x78 2 1000000, Read_char 0x69 3 1000000,
           Read_char 0x74 4 1000000] initial_state)
     = Exited_on_request \<and>
   bind_chars (snd (process_input two_entry_table ctrl_c_ctrl_d True
          [Read_char 0x65 1 1000000, Read_char 0x78 2 1000000, Read_char 0x69 3 1000000,
           Read_char 0x74 4 1000000] initial_state))
     = [0x65, 0x78, 0x69, 0x74] \<and>
   stdout (snd (process_input two_entry_table ctrl_c_ctrl_d True
          [Read_char 0x65 1 1000000, Read_char 0x78 2 1000000, Read_char 0x69 3 1000000,
           Read_char 0x74 4 1000000] initial_state))
     = [] \<and>
   fst (process_input two_entry_table ctrl_c_ctrl_d True
          [Read_char 0x61 1 1000000, Signal_in_read 15, Read_char 0x62 2 1000000] initial_state)
     = Stopped_by_flag \<and>
   bind_chars (snd (process_input two_entry_table ctrl_c_ctrl_d True
          [Read_char 0x61 1 1000000, Signal_in_read 15, Read_char 0x62 2 1000000] initial_state))
     = [0x61, 0x62] \<and>
   stdout (snd (process_input two_entry_table ctrl_c_ctrl_d True
          [Read_char 0x61 1 1000000, Signal_in_read 15, Read_char 0x62 2 1000000] initial_state))
     = ''signal #15 (SIG) received'' @ [newline]"
  by (simp add: run_simps signal_handler_def Let_def SIGHUP_def SIGTERM_def SIGABRT_def SIGSEGV_def
      printf_d_signo)

text \<open>
  Claim C3, amended: the accumulator is flushed by a non-character event and by a capability
  match, in the round in which they occur, and by nothing else: leaving the loop flushes
  nothing. Take a run of \<^verbatim>\<open>process_input\<close> that stands at the loop condition with
  \<^verbatim>\<open>keep_running\<close> true, in state \<open>s'\<close>.

  \<^item> A non-character event flushes; in single-shot mode after a first character the loop
    then returns, with the accumulator empty.
  \<^item> When \<^verbatim>\<open>should_exit\<close> ends the loop, the accumulated characters and the new one are
    returned not emitted, unless the new character completes a capability sequence: then
    the match has written both lines before the \<^verbatim>\<open>break\<close>.
  \<^item> When a terminating signal arrives before the condition is tested, the loop ends with
    the accumulator unchanged and only the report of the signal written.
  \<^item> When it arrives while the round waits and a character event follows that does not end
    the loop by itself, the round runs to its end and the condition then fails: the
    characters are returned not emitted, unless that character completes a capability
    sequence.
  \<^item> When it arrives while the round waits and a non-character event follows, that event
    flushes before the loop ends.
\<close>

theorem process_input_flush_on_timeout_only:
  assumes "process_input ext sm cm inputs s = (At_loop_test, s')"
  shows "process_input ext sm cm (inputs @ [Read_no_char]) s =
           (if first_char_seen s' \<and> \<not> cm then Returned_on_timeout else At_loop_test,
            output_bind_command s') \<and>
         bind_chars (output_bind_command s') = [] \<and>
         (fst (should_exit sm wc s') \<longrightarrow>
            fst (process_input ext sm cm (inputs @ [Read_char wc now d]) s) = Exited_on_request \<and>
            bind_chars (snd (process_input ext sm cm (inputs @ [Read_char wc now d]) s)) =
              (if fst (sequence_name ext wc s') = None then bind_chars s' @ [wc] else []) \<and>
            stdout (snd (process_input ext sm cm (inputs @ [Read_char wc now d]) s)) =
              stdout s' @ (case fst (sequence_name ext wc s') of None \<Rightarrow> []
                 | Some name \<Rightarrow>
                     ''bind -k '' @ name @ '' '' @ [apostrophe] @ ''do something'' @ [apostrophe, newline]
                     @ ''bind '' @ concat (map (\<lambda>c. char_to_symbol c True) (bind_chars s' @ [wc]))
                     @ '' '' @ [apostrophe] @ ''do something'' @ [apostrophe, newline])) \<and>
         (signo \<in> {SIGHUP, SIGTERM, SIGABRT, SIGSEGV} \<longrightarrow>
            fst (process_input ext sm cm (inputs @ [Signal signo]) s) = Stopped_by_flag \<and>
            bind_chars (snd (process_input ext sm cm (inputs @ [Signal signo]) s)) = bind_chars s' \<and>
            stdout (snd (process_input ext sm cm (inputs @ [Signal signo]) s)) =
              stdout s' @ ''signal #'' @ printf_d CHR '' '' 0 signo @ '' ('' @ sig2wcs ext signo
                @ '') received'' @ [newline]) \<and>
         (signo \<in> {SIGHUP, SIGTERM, SIGABRT, SIGSEGV} \<and> \<not> fst (should_exit sm wc s') \<longrightarrow>
            fst (process_input ext sm cm (inputs @ [Signal_in_read signo, Read_char wc now d]) s)
              = Stopped_by_flag \<and>
            bind_chars (snd (process_input ext sm cm (inputs @ [Signal_in_read signo, Read_char wc now d]) s)) =
              (if fst (sequence_name ext wc s') = None then bind_chars s' @ [wc] else []) \<and>
            stdout (snd (process_input ext sm cm (inputs @ [Signal_in_read signo, Read_char wc now d]) s)) =
              stdout s' @ ''signal #'' @ printf_d CHR '' '' 0 signo @ '' ('' @ sig2wcs ext signo
                @ '') received'' @ [newline]
              @ (case fst (sequence_name ext wc s') of None \<Rightarrow> []
                 | Some name \<Rightarrow>
                     ''bind -k '' @ name @ '' '' @ [apostrophe] @ ''do something'' @ [apostrophe, newline]
                     @ ''bind '' @ concat (map (\<lambda>c. char_to_symbol c True) (bind_chars s' @ [wc]))
                     @ '' '' @ [apostrophe] @ ''do something'' @ [apostrophe, newline])) \<and>
         (signo \<in> {SIGHUP, SIGTERM, SIGABRT, SIGSEGV} \<longrightarrow>
            fst (process_input ext sm cm (inputs @ [Signal_in_read signo, Read_no_char]) s) =
              (if first_char_seen s' \<and> \<not> cm then Returned_on_timeout else Stopped_by_flag) \<and>
            bind_chars (snd (process_input ext sm cm (inputs @ [Signal_in_read signo, Read_no_char]) s)) = [] \<and>
            stdout (snd (process_input ext sm cm (inputs @ [Signal_in_read signo, Read_no_char]) s)) =
              stdout s' @ ''signal #'' @ printf_d CHR '' '' 0 signo @ '' ('' @ sig2wcs ext signo
                @ '') received'' @ [newline]
              @ (if bind_chars s' = [] then []
                 else ''bind '' @ concat (map (\<lambda>c. char_to_symbol c True) (bind_chars s'))
                      @ '' '' @ [apostrophe] @ ''do something'' @ [apostrophe, newline]))"
proof -
  note app = process_input_append [OF assms]
  have kr: "keep_running s'" using app by simp
  have A: "process_input ext sm cm (inputs @ [Read_no_char]) s =
           (if first_char_seen s' \<and> \<not> cm then Returned_on_timeout else At_loop_test,
            output_bind_command s')"
    using app [of "[Read_no_char]"] by (simp add: Let_def output_bind_command_frame)
  have A': "bind_chars (output_bind_command s') = []"
    by (simp add: output_bind_command_frame)
  have B: "fst (process_input ext sm cm (inputs @ [Read_char wc now d]) s) = Exited_on_request \<and>
            bind_chars (snd (process_input ext sm cm (inputs @ [Read_char wc now d]) s)) =
              (if fst (sequence_name ext wc s') = None then bind_chars s' @ [wc] else []) \<and>
            stdout (snd (process_input ext sm cm (inputs @ [Read_char wc now d]) s)) =
              stdout s' @ (case fst (sequence_name ext wc s') of None \<Rightarrow> []
                 | Some name \<Rightarrow>
                     ''bind -k '' @ name @ '' '' @ [apostrophe] @ ''do something'' @ [apostrophe, newline]
                     @ ''bind '' @ concat (map (\<lambda>c. char_to_symbol c True) (bind_chars s' @ [wc]))
                     @ '' '' @ [apostrophe] @ ''do something'' @ [apostrophe, newline])"
    if h: "fst (should_exit sm wc s')"
  proof -
    have e: "process_input ext sm cm (inputs @ [Read_char wc now d]) s =
               (Exited_on_request, snd (character_event ext sm wc now d s'))"
      using app [of "[Read_char wc now d]"] h
      by (simp add: case_prod_beta character_event_summary)
    show ?thesis by (simp add: e character_event_summary)
  qed
  have SIG: "\<exists>s''. signal_handler ext signo s' = Some s'' \<and> \<not> keep_running s'' \<and>
      bind_chars s'' = bind_chars s' \<and> first_char_seen s'' = first_char_seen s' \<and>
      exit_recent_chars s'' = exit_recent_chars s' \<and> seq_recent_chars s'' = seq_recent_chars s' \<and>
      stdout s'' = stdout s' @ ''signal #'' @ printf_d CHR '' '' 0 signo @ '' ('' @ sig2wcs ext signo
                @ '') received'' @ [newline]"
    if "signo \<in> {SIGHUP, SIGTERM, SIGABRT, SIGSEGV}"
    using signal_handler_terminating [OF that, of ext s'] .
  have C: "fst (process_input ext sm cm (inputs @ [Signal signo]) s) = Stopped_by_flag \<and>
            bind_chars (snd (process_input ext sm cm (inputs @ [Signal signo]) s)) = bind_chars s' \<and>
            stdout (snd (process_input ext sm cm (inputs @ [Signal signo]) s)) =
              stdout s' @ ''signal #'' @ printf_d CHR '' '' 0 signo @ '' ('' @ sig2wcs ext signo
                @ '') received'' @ [newline]"
    if h: "signo \<in> {SIGHUP, SIGTERM, SIGABRT, SIGSEGV}"
  proof -
    from SIG [OF h] obtain s'' where s'': "signal_handler ext signo s' = Some s''" "\<not> keep_running s''"
      "bind_chars s'' = bind_chars s'"
      "stdout s'' = stdout s' @ ''signal #'' @ printf_d CHR '' '' 0 signo @ '' ('' @ sig2wcs ext signo
                @ '') received'' @ [newline]" by blast
    have "process_input ext sm cm (inputs @ [Signal signo]) s = (Stopped_by_flag, s'')"
      using app [of "[Signal signo]"] s'' by simp
    then show ?thesis by (simp add: s'')
  qed
  have D: "fst (process_input ext sm cm (inputs @ [Signal_in_read signo, Read_char wc now d]) s)
              = Stopped_by_flag \<and>
            bind_chars (snd (process_input ext sm cm (inputs @ [Signal_in_read signo, Read_char wc now d]) s)) =
              (if fst (sequence_name ext wc s') = None then bind_chars s' @ [wc] else []) \<and>
            stdout (snd (process_input ext sm cm (inputs @ [Signal_in_read signo, Read_char wc now d]) s)) =
              stdout s' @ ''signal #'' @ printf_d CHR '' '' 0 signo @ '' ('' @ sig2wcs ext signo
                @ '') received'' @ [newline]
              @ (case fst (sequence_name ext wc s') of None \<Rightarrow> []
                 | Some name \<Rightarrow>
                     ''bind -k '' @ name @ '' '' @ [apostrophe] @ ''do something'' @ [apostrophe, newline]
                     @ ''bind '' @ concat (map (\<lambda>c. char_to_symbol c True) (bind_chars s' @ [wc]))
                     @ '' '' @ [apostrophe] @ ''do something'' @ [apostrophe, newline])"
    if h: "signo \<in> {SIGHUP, SIGTERM, SIGABRT, SIGSEGV} \<and> \<not> fst (should_exit sm wc s')"
  proof -
    from h SIG obtain s'' where s'': "signal_handler ext signo s' = Some s''" "\<not> keep_running s''"
      "bind_chars s'' = bind_chars s'" "exit_recent_chars s'' = exit_recent_chars s'"
      "seq_recent_chars s'' = seq_recent_chars s'"
      "stdout s'' = stdout s' @ ''signal #'' @ printf_d CHR '' '' 0 signo @ '' ('' @ sig2wcs ext signo
                @ '') received'' @ [newline]" by blast
    have ex: "fst (should_exit sm wc s'') = fst (should_exit sm wc s')"
      using should_exit_cong [OF s''(4), of sm wc] by simp
    have sq: "fst (sequence_name ext wc s'') = fst (sequence_name ext wc s')"
      using sequence_name_cong [OF s''(5), of ext wc] by simp
    have e: "process_input ext sm cm (inputs @ [Signal_in_read signo, Read_char wc now d]) s =
               (Stopped_by_flag, snd (character_event ext sm wc now d s''))"
      using app [of "[Signal_in_read signo, Read_char wc now d]"] h kr s''(1,2) ex
      by (simp add: case_prod_beta character_event_summary)
    show ?thesis
      by (cases "fst (sequence_name ext wc s')") (simp_all add: e character_event_summary sq s'')
  qed
  have E: "fst (process_input ext sm cm (inputs @ [Signal_in_read signo, Read_no_char]) s) =
              (if first_char_seen s' \<and> \<not> cm then Returned_on_timeout else Stopped_by_flag) \<and>
            bind_chars (snd (process_input ext sm cm (inputs @ [Signal_in_read signo, Read_no_char]) s)) = [] \<and>
            stdout (snd (process_input ext sm cm (inputs @ [Signal_in_read signo, Read_no_char]) s)) =
              stdout s' @ ''signal #'' @ printf_d CHR '' '' 0 signo @ '' ('' @ sig2wcs ext signo
                @ '') received'' @ [newline]
              @ (if bind_chars s' = [] then []
                 else ''bind '' @ concat (map (\<lambda>c. char_to_symbol c True) (bind_chars s'))
                      @ '' '' @ [apostrophe] @ ''do something'' @ [apostrophe, newline])"
    if h: "signo \<in> {SIGHUP, SIGTERM, SIGABRT, SIGSEGV}"
  proof -
    from SIG [OF h] obtain s'' where s'': "signal_handler ext signo s' = Some s''" "\<not> keep_running s''"
      "bind_chars s'' = bind_chars s'" "first_char_seen s'' = first_char_seen s'"
      "stdout s'' = stdout s' @ ''signal #'' @ printf_d CHR '' '' 0 signo @ '' ('' @ sig2wcs ext signo
                @ '') received'' @ [newline]" by blast
    have e: "process_input ext sm cm (inputs @ [Signal_in_read signo, Read_no_char]) s =
               (if first_char_seen s' \<and> \<not> cm then Returned_on_timeout else Stopped_by_flag,
                output_bind_command s'')"
      using app [of "[Signal_in_read signo, Read_no_char]"] kr s''(1,2,4)
      by (simp add: Let_def output_bind_command_frame)
    show ?thesis
      by (cases "bind_chars s' = []")
         (simp_all add: e output_bind_command_frame output_bind_command_empty
            output_bind_command_nonempty s'')
  qed
  show ?thesis
    apply (intro conjI)
         apply (rule A)
        apply (rule A')
       apply (rule impI, erule B)
      apply (rule impI, erule C)
     apply (rule impI, erule D)
    apply (rule impI, erule E)
    done
qed

lemma char_to_symbol_letters:
  "char_to_symbol 0x65 True = ''e''" "char_to_symbol 0x78 True = ''x''"
  "char_to_symbol 0x69 True = ''i''" "char_to_symbol 0x74 True = ''t''"
  by (simp_all add: char_to_symbol_def ascii_printable_to_symbol_def
      must_escape_def backslash_def apostrophe_def dquote_def char_of_def bit_Suc_0_iff)

theorem process_input_flush_on_timeout_only_witness:
  "fst (process_input two_entry_table ctrl_c_ctrl_d False [Read_char 0x61 1 1000000, Read_no_char]
          initial_state) = Returned_on_timeout \<and>
   stdout (snd (process_input two_entry_table ctrl_c_ctrl_d False [Read_char 0x61 1 1000000, Read_no_char]
          initial_state)) = ''bind a '' @ [apostrophe] @ ''do something'' @ [apostrophe, newline] \<and>
   fst (process_input two_entry_table ctrl_c_ctrl_d False
          [Read_char 0x65 1 1000000, Read_char 0x78 2 1000000, Read_char 0x69 3 1000000,
           Read_char 0x74 4 1000000] initial_state) = Exited_on_request \<and>
   bind_chars (snd (process_input two_entry_table ctrl_c_ctrl_d False
          [Read_char 0x65 1 1000000, Read_char 0x78 2 1000000, Read_char 0x69 3 1000000,
           Read_char 0x74 4 1000000] initial_state)) = [0x65, 0x78, 0x69, 0x74] \<and>
   bind_chars (snd (process_input t_key_table ctrl_c_ctrl_d False
          [Read_char 0x65 1 1000000, Read_char 0x78 2 1000000, Read_char 0x69 3 1000000,
           Read_char 0x74 4 1000000] initial_state)) = [] \<and>
   stdout (snd (process_input t_key_table ctrl_c_ctrl_d False
          [Read_char 0x65 1 1000000, Read_char 0x78 2 1000000, Read_char 0x69 3 1000000,
           Read_char 0x74 4 1000000] initial_state)) =
     ''bind -k tee '' @ [apostrophe] @ ''do something'' @ [apostrophe, newline]
     @ ''bind exit '' @ [apostrophe] @ ''do something'' @ [apostrophe, newline] \<and>
   fst (process_input two_entry_table ctrl_c_ctrl_d False [Read_char 0x61 1 1000000, Signal 15]
          initial_state) = Stopped_by_flag \<and>
   bind_chars (snd (process_input two_entry_table ctrl_c_ctrl_d False [Read_char 0x61 1 1000000, Signal 15]
          initial_state)) = [0x61] \<and>
   fst (process_input two_entry_table ctrl_c_ctrl_d False
          [Read_char 0x61 1 1000000, Signal_in_read 15, Read_char 0x62 2 1000000] initial_state)
     = Stopped_by_flag \<and>
   bind_chars (snd (process_input two_entry_table ctrl_c_ctrl_d False
          [Read_char 0x61 1 1000000, Signal_in_read 15, Read_char 0x62 2 1000000] initial_state))
     = [0x61, 0x62] \<and>
   fst (process_input two_entry_table ctrl_c_ctrl_d True
          [Read_char 0x61 1 1000000, Signal_in_read 15, Read_no_char] initial_state) = Stopped_by_flag \<and>
   stdout (snd (process_input two_entry_table ctrl_c_ctrl_d True
          [Read_char 0x61 1 1000000, Signal_in_read 15, Read_no_char] initial_state)) =
     ''signal #15 (SIG) received'' @ [newline]
     @ ''bind a '' @ [apostrophe] @ ''do something'' @ [apostrophe, newline]"
proof -
  let ?run = "process_input two_entry_table ctrl_c_ctrl_d False"
  let ?runc = "process_input two_entry_table ctrl_c_ctrl_d True"
  let ?runt = "process_input t_key_table ctrl_c_ctrl_d False"
  let ?a = "[Read_char 0x61 1 1000000]"
  let ?exi = "[Read_char 0x65 1 1000000, Read_char 0x78 2 1000000, Read_char 0x69 3 1000000]"
  have a: "?run ?a initial_state = (At_loop_test, snd (?run ?a initial_state))"
    by (rule prod_eqI) (simp_all add: run_simps)
  have ac: "?runc ?a initial_state = (At_loop_test, snd (?runc ?a initial_state))"
    by (rule prod_eqI) (simp_all add: run_simps)
  have b: "?run ?exi initial_state = (At_loop_test, snd (?run ?exi initial_state))"
    by (rule prod_eqI) (simp_all add: run_simps)
  have bt: "?runt ?exi initial_state = (At_loop_test, snd (?runt ?exi initial_state))"
    by (rule prod_eqI) (simp_all add: run_simps t_key_table_def)
  have pa: "first_char_seen (snd (?run ?a initial_state))"
    "bind_chars (snd (?run ?a initial_state)) = [0x61]"
    "stdout (snd (?run ?a initial_state)) = []"
    "\<not> fst (should_exit ctrl_c_ctrl_d 0x62 (snd (?run ?a initial_state)))"
    "fst (sequence_name two_entry_table 0x62 (snd (?run ?a initial_state))) = None"
    by (simp_all add: run_simps)
  have pac: "first_char_seen (snd (?runc ?a initial_state))"
    "bind_chars (snd (?runc ?a initial_state)) = [0x61]"
    "stdout (snd (?runc ?a initial_state)) = []"
    by (simp_all add: run_simps)
  have pb: "fst (should_exit ctrl_c_ctrl_d 0x74 (snd (?run ?exi initial_state)))"
    "fst (sequence_name two_entry_table 0x74 (snd (?run ?exi initial_state))) = None"
    "bind_chars (snd (?run ?exi initial_state)) = [0x65, 0x78, 0x69]"
    by (simp_all add: run_simps)
  have pbt: "fst (should_exit ctrl_c_ctrl_d 0x74 (snd (?runt ?exi initial_state)))"
    "fst (sequence_name t_key_table 0x74 (snd (?runt ?exi initial_state))) = Some ''tee''"
    "bind_chars (snd (?runt ?exi initial_state)) = [0x65, 0x78, 0x69]"
    "stdout (snd (?runt ?exi initial_state)) = []"
    by (simp_all add: run_simps t_key_table_def)
  have sig: "sig2wcs two_entry_table 15 = ''SIG''" by (simp add: two_entry_table_def)
  show ?thesis
    using process_input_flush_on_timeout_only [OF a, of "0x62" 2 1000000 15]
      process_input_flush_on_timeout_only [OF ac, of "0x62" 2 1000000 15]
      process_input_flush_on_timeout_only [OF b, of "0x74" 4 1000000 15]
      process_input_flush_on_timeout_only [OF bt, of "0x74" 4 1000000 15]
    by (simp add: pa pac pb pbt output_bind_command_nonempty char_to_symbol_examples
        char_to_symbol_letters SIGHUP_def SIGTERM_def SIGABRT_def SIGSEGV_def
        printf_d_signo sig)
qed

end
